theory Spec2Isabelle
  imports Main
begin

section \<open>Strings, numbers and regular expressions of the host language\<close>

text \<open>
  Source strings are modelled as \<^typ>\<open>string\<close>: a list of 8-bit characters standing for the
  code units below 256. Numbers that come out of \<open>parseInt\<close> are integers or \<open>NaN\<close>;
  they are modelled as \<^typ>\<open>int option\<close> with \<open>None\<close> for \<open>NaN\<close> (the source's doubles
  are exact on integers below \<open>2^53\<close>).
\<close>

type_synonym jsnum = "int option"

text \<open>The character ranges \<open>0-9\<close>, \<open>A-Z\<close>, \<open>a-z\<close> by code unit.\<close>

definition is_digit :: "char \<Rightarrow> bool" where
  "is_digit c = (48 \<le> (of_char c :: nat) \<and> (of_char c :: nat) \<le> 57)"

definition is_upper :: "char \<Rightarrow> bool" where
  "is_upper c = (65 \<le> (of_char c :: nat) \<and> (of_char c :: nat) \<le> 90)"

definition is_lower :: "char \<Rightarrow> bool" where
  "is_lower c = (97 \<le> (of_char c :: nat) \<and> (of_char c :: nat) \<le> 122)"

definition is_alpha :: "char \<Rightarrow> bool" where
  "is_alpha c = (is_upper c \<or> is_lower c)"

text \<open>\<open>\w\<close> of the source's regular expressions.\<close>

definition is_word :: "char \<Rightarrow> bool" where
  "is_word c = (is_alpha c \<or> is_digit c \<or> c = CHR ''_'')"

text \<open>\<open>\s\<close>: tab, line feed, vertical tab, form feed, carriage return, space, no-break space.\<close>

definition is_space :: "char \<Rightarrow> bool" where
  "is_space c = (of_char c \<in> {9, 10, 11, 12, 13, 32, 160 :: nat})"

text \<open>The line terminators, which \<open>.\<close> does not match.\<close>

definition is_newline :: "char \<Rightarrow> bool" where
  "is_newline c = (of_char c \<in> {10, 13 :: nat})"

definition digit_val :: "char \<Rightarrow> int" where
  "digit_val c = int (of_char c) - 48"

text \<open>\<open>String.prototype.trim\<close>.\<close>

definition trimStart :: "string \<Rightarrow> string" where
  "trimStart s = dropWhile is_space s"

definition trimEnd :: "string \<Rightarrow> string" where
  "trimEnd s = rev (dropWhile is_space (rev s))"

definition trim :: "string \<Rightarrow> string" where
  "trim s = trimEnd (trimStart s)"

text \<open>
  \<open>parseInt(s, 10)\<close>: leading white space is skipped, a sign is read, then the longest run of
  decimal digits; no digit gives \<open>NaN\<close>. An absent argument (\<open>undefined\<close>) gives \<open>NaN\<close> too.
\<close>

definition digits_val :: "string \<Rightarrow> int" where
  "digits_val ds = foldl (\<lambda>acc c. acc * 10 + digit_val c) 0 ds"

definition parseInt10 :: "string \<Rightarrow> jsnum" where
  "parseInt10 s =
     (let t = trimStart s;
          neg = (case t of c # _ \<Rightarrow> c = CHR ''-'' | [] \<Rightarrow> False);
          u = (case t of c # cs \<Rightarrow> if c = CHR ''-'' \<or> c = CHR ''+'' then cs else t | [] \<Rightarrow> t);
          ds = takeWhile is_digit u
      in if ds = [] then None
         else Some (if neg then - digits_val ds else digits_val ds))"

text \<open>\<open>x || 0\<close> on a number: \<open>NaN\<close> and zero are falsy.\<close>

definition or0 :: "jsnum \<Rightarrow> jsnum" where
  "or0 x = (case x of None \<Rightarrow> Some 0 | Some n \<Rightarrow> Some n)"

text \<open>\<open>x + 1\<close>, \<open>x !== y\<close> and \<open>x > y\<close> on numbers; every comparison with \<open>NaN\<close> is false.\<close>

definition num_succ :: "jsnum \<Rightarrow> jsnum" where
  "num_succ x = map_option (\<lambda>n. n + 1) x"

definition num_neq :: "jsnum \<Rightarrow> jsnum \<Rightarrow> bool" where
  "num_neq x y = (case (x, y) of (Some a, Some b) \<Rightarrow> a \<noteq> b | _ \<Rightarrow> True)"

definition num_gt :: "jsnum \<Rightarrow> jsnum \<Rightarrow> bool" where
  "num_gt x y = (case (x, y) of (Some a, Some b) \<Rightarrow> a > b | _ \<Rightarrow> False)"

text \<open>\<open>String.prototype.split\<close> with a non-empty string separator.\<close>

fun split_acc :: "string \<Rightarrow> string \<Rightarrow> string \<Rightarrow> string list" where
  "split_acc sep acc [] = [rev acc]"
| "split_acc sep acc (c # cs) =
     (if sep \<noteq> [] \<and> take (length sep) (c # cs) = sep
      then rev acc # split_acc sep [] (drop (length sep) (c # cs))
      else split_acc sep (c # acc) cs)"

definition split_str :: "string \<Rightarrow> string \<Rightarrow> string list" where
  "split_str sep s = split_acc sep [] s"

text \<open>\<open>s.split(/\s+/).filter(Boolean)\<close>: the maximal runs of non-space characters.\<close>

fun words_acc :: "string \<Rightarrow> string \<Rightarrow> string list" where
  "words_acc acc [] = (if acc = [] then [] else [rev acc])"
| "words_acc acc (c # cs) =
     (if is_space c then (if acc = [] then words_acc [] cs else rev acc # words_acc [] cs)
      else words_acc (c # acc) cs)"

definition split_ws :: "string \<Rightarrow> string list" where
  "split_ws s = words_acc [] s"

text \<open>\<open>String.prototype.indexOf\<close> and \<open>includes\<close> with a string argument.\<close>

fun indexOf_from :: "nat \<Rightarrow> string \<Rightarrow> string \<Rightarrow> nat option" where
  "indexOf_from i pat [] = (if pat = [] then Some i else None)"
| "indexOf_from i pat (c # cs) =
     (if take (length pat) (c # cs) = pat then Some i else indexOf_from (Suc i) pat cs)"

definition indexOf :: "string \<Rightarrow> string \<Rightarrow> nat option" where
  "indexOf s pat = indexOf_from 0 pat s"

definition str_includes :: "string \<Rightarrow> string \<Rightarrow> bool" where
  "str_includes s pat = (indexOf s pat \<noteq> None)"

subsection \<open>A backtracking matcher for the regular expressions of the source\<close>

text \<open>
  The source's regular expressions are written as terms of \<open>regex\<close> and run by a matcher
  that lists the possible end states of a match in the order the backtracking engine of the
  host tries them (greedy repetition first, left alternative first). The first element of
  the list is the match the host reports.
\<close>

datatype regex =
    Cls "char \<Rightarrow> bool"
  | Eps
  | Seq regex regex
  | Alt regex regex
  | Star regex
  | Grp nat regex
  | Bol
  | BolM
  | Eol

record mstate =
  prev :: "char option"
  rest :: string
  caps :: "(nat \<times> string) list"

primrec star_iter :: "(mstate \<Rightarrow> mstate list) \<Rightarrow> nat \<Rightarrow> mstate \<Rightarrow> mstate list" where
  "star_iter f 0 s = [s]"
| "star_iter f (Suc n) s =
     concat (map (\<lambda>s'. if length (rest s') < length (rest s) then star_iter f n s' else [])
                 (f s)) @ [s]"

fun rmatches :: "regex \<Rightarrow> mstate \<Rightarrow> mstate list" where
  "rmatches (Cls p) s =
     (case rest s of [] \<Rightarrow> []
      | c # cs \<Rightarrow> if p c then [s\<lparr>prev := Some c, rest := cs\<rparr>] else [])"
| "rmatches Eps s = [s]"
| "rmatches (Seq a b) s = concat (map (rmatches b) (rmatches a s))"
| "rmatches (Alt a b) s = rmatches a s @ rmatches b s"
| "rmatches (Star a) s = star_iter (rmatches a) (length (rest s)) s"
| "rmatches (Grp n a) s =
     map (\<lambda>s'. s'\<lparr>caps := (n, take (length (rest s) - length (rest s')) (rest s)) # caps s'\<rparr>)
         (rmatches a s)"
| "rmatches Bol s = (if prev s = None then [s] else [])"
| "rmatches BolM s =
     (case prev s of None \<Rightarrow> [s] | Some c \<Rightarrow> if is_newline c then [s] else [])"
| "rmatches Eol s = (if rest s = [] then [s] else [])"

text \<open>Derived forms: a literal character, a literal string, \<open>r+\<close>, \<open>r?\<close>, a sequence.\<close>

definition Chr :: "char \<Rightarrow> regex" where
  "Chr c = Cls (\<lambda>d. d = c)"

definition Lit :: "string \<Rightarrow> regex" where
  "Lit s = foldr (\<lambda>c r. Seq (Chr c) r) s Eps"

definition Plus :: "regex \<Rightarrow> regex" where
  "Plus r = Seq r (Star r)"

definition Opt :: "regex \<Rightarrow> regex" where
  "Opt r = Alt r Eps"

definition Seqs :: "regex list \<Rightarrow> regex" where
  "Seqs rs = foldr Seq rs Eps"

text \<open>\<open>.\<close>, \<open>\d\<close>, \<open>\w\<close>, \<open>\s\<close>, \<open>\S\<close>.\<close>

definition Dot :: regex where
  "Dot = Cls (\<lambda>c. \<not> is_newline c)"

definition Digit :: regex where
  "Digit = Cls is_digit"

definition Word :: regex where
  "Word = Cls is_word"

definition Space :: regex where
  "Space = Cls is_space"

definition NonSpace :: regex where
  "NonSpace = Cls (\<lambda>c. \<not> is_space c)"

text \<open>The text of capture group \<open>n\<close> of a match, \<open>None\<close> when the group did not take part.\<close>

definition cap :: "mstate \<Rightarrow> nat \<Rightarrow> string option" where
  "cap m n = map_of (caps m) n"

text \<open>
  \<open>re.exec\<close> at the first position where the expression matches: the text skipped before the
  match, the matched text and the end state. \<open>p\<close> is the character before \<open>s\<close>.
\<close>

fun search_from :: "regex \<Rightarrow> char option \<Rightarrow> string \<Rightarrow> (string \<times> string \<times> mstate) option" where
  "search_from r p [] =
     (case rmatches r \<lparr>prev = p, rest = [], caps = []\<rparr> of
        m # _ \<Rightarrow> Some ([], [], m) | [] \<Rightarrow> None)"
| "search_from r p (c # cs) =
     (case rmatches r \<lparr>prev = p, rest = c # cs, caps = []\<rparr> of
        m # _ \<Rightarrow> Some ([], take (length (c # cs) - length (rest m)) (c # cs), m)
      | [] \<Rightarrow> map_option (\<lambda>(pre, mt, m). (c # pre, mt, m)) (search_from r (Some c) cs))"

definition rsearch :: "regex \<Rightarrow> string \<Rightarrow> (string \<times> string \<times> mstate) option" where
  "rsearch r s = search_from r None s"

text \<open>\<open>re.test(s)\<close> and \<open>s.match(re)\<close> for an expression without the \<open>g\<close> flag.\<close>

definition rtest :: "regex \<Rightarrow> string \<Rightarrow> bool" where
  "rtest r s = (rsearch r s \<noteq> None)"

definition rmatch :: "regex \<Rightarrow> string \<Rightarrow> mstate option" where
  "rmatch r s = map_option (\<lambda>(pre, mt, m). m) (rsearch r s)"

text \<open>
  \<open>s.replace(re, f)\<close>: without the \<open>g\<close> flag the first match is replaced, with it every
  match, from left to right and without overlap. \<open>f\<close> receives the matched text and the
  end state (for the capture groups).
\<close>

definition replace_first :: "regex \<Rightarrow> (string \<Rightarrow> mstate \<Rightarrow> string) \<Rightarrow> string \<Rightarrow> string" where
  "replace_first r f s =
     (case rsearch r s of None \<Rightarrow> s
      | Some (pre, mt, m) \<Rightarrow> pre @ f mt m @ rest m)"

fun replace_from :: "nat \<Rightarrow> regex \<Rightarrow> (string \<Rightarrow> mstate \<Rightarrow> string) \<Rightarrow> char option \<Rightarrow> string \<Rightarrow> string" where
  "replace_from 0 r f p s = s"
| "replace_from (Suc n) r f p s =
     (case search_from r p s of None \<Rightarrow> s
      | Some (pre, mt, m) \<Rightarrow>
          if mt = [] then
            (case rest m of [] \<Rightarrow> pre @ f mt m
             | c # cs \<Rightarrow> pre @ f mt m @ c # replace_from n r f (Some c) cs)
          else pre @ f mt m @ replace_from n r f (prev m) (rest m))"

definition replace_all :: "regex \<Rightarrow> (string \<Rightarrow> mstate \<Rightarrow> string) \<Rightarrow> string \<Rightarrow> string" where
  "replace_all r f s = replace_from (Suc (length s)) r f None s"


text \<open>\<open>a < b\<close> on strings: lexicographic by code unit.\<close>

fun str_less :: "string \<Rightarrow> string \<Rightarrow> bool" where
  "str_less [] [] = False"
| "str_less [] (b # bs) = True"
| "str_less (a # as) [] = False"
| "str_less (a # as) (b # bs) =
     ((of_char a :: nat) < of_char b \<or> (a = b \<and> str_less as bs))"

text \<open>\<open>xs[i]\<close>, \<open>undefined\<close> out of range.\<close>

definition nth_opt :: "'a list \<Rightarrow> nat \<Rightarrow> 'a option" where
  "nth_opt xs i = (if i < length xs then Some (xs ! i) else None)"

text \<open>
  \<open>Array.prototype.sort\<close> with a comparator is a stable sort; it is modelled by the stable
  insertion sort: an element goes before the first element it does not compare greater than.
\<close>

fun insort_cmp :: "('a \<Rightarrow> 'a \<Rightarrow> int) \<Rightarrow> 'a \<Rightarrow> 'a list \<Rightarrow> 'a list" where
  "insort_cmp cmp x [] = [x]"
| "insort_cmp cmp x (y # ys) =
     (if cmp x y \<le> 0 then x # y # ys else y # insort_cmp cmp x ys)"

definition sort_cmp :: "('a \<Rightarrow> 'a \<Rightarrow> int) \<Rightarrow> 'a list \<Rightarrow> 'a list" where
  "sort_cmp cmp xs = foldr (insort_cmp cmp) xs []"

section \<open>Semver: \<open>npm-lite/semver.js\<close>\<close>

text \<open>
  A version object. The fields \<open>raw\<close> (set by \<open>parse\<close>, never read) and \<open>partial\<close> (set by
  \<open>parsePartial\<close>) are not part of the record: \<open>parsePartial\<close> returns the flag beside the
  version.
\<close>

record version =
  major :: jsnum
  minor :: jsnum
  patch :: jsnum
  prerelease :: "string list"

text \<open>The identifier characters \<open>[a-zA-Z0-9._-]\<close>.\<close>

definition is_ident_char :: "char \<Rightarrow> bool" where
  "is_ident_char c = (is_alpha c \<or> is_digit c \<or> c = CHR ''.'' \<or> c = CHR ''_'' \<or> c = CHR ''-'')"

text \<open>\<open>/^[v=]/\<close>\<close>

definition re_lead :: regex where
  "re_lead = Seqs [Bol, Cls (\<lambda>c. c = CHR ''v'' \<or> c = CHR ''='')]"

text \<open>\<open>/^(\d+)\.(\d+)\.(\d+)(?:-([a-zA-Z0-9._-]+))?(?:\+([a-zA-Z0-9._-]+))?$/\<close>\<close>

definition re_version :: regex where
  "re_version =
     Seqs [Bol, Grp 1 (Plus Digit), Chr CHR ''.'', Grp 2 (Plus Digit), Chr CHR ''.'',
           Grp 3 (Plus Digit),
           Opt (Seq (Chr CHR ''-'') (Grp 4 (Plus (Cls is_ident_char)))),
           Opt (Seq (Chr CHR ''+'') (Grp 5 (Plus (Cls is_ident_char)))),
           Eol]"

definition parse :: "string \<Rightarrow> version option" where
  "parse ver =
     (let cleaned = replace_first re_lead (\<lambda>mt m. []) (trim ver)
      in case rmatch re_version cleaned of
           None \<Rightarrow> None
         | Some m \<Rightarrow>
             Some \<lparr>major = parseInt10 (the (cap m 1)),
                   minor = parseInt10 (the (cap m 2)),
                   patch = parseInt10 (the (cap m 3)),
                   prerelease = (case cap m 4 of Some p \<Rightarrow> split_str ''.'' p | None \<Rightarrow> [])\<rparr>)"

text \<open>\<open>/^\d+$/\<close>\<close>

definition re_numeric :: regex where
  "re_numeric = Seqs [Bol, Plus Digit, Eol]"

text \<open>
  The loop of \<open>compare\<close> over the prerelease identifiers, from index \<open>i\<close> on: the two lists
  are the identifiers not yet looked at.
\<close>

fun compare_pre :: "string list \<Rightarrow> string list \<Rightarrow> int" where
  "compare_pre [] [] = 0"
| "compare_pre [] (bi # bs) = - 1"
| "compare_pre (ai # as) [] = 1"
| "compare_pre (ai # as) (bi # bs) =
     (let aNum = (if rtest re_numeric ai then parseInt10 ai else None);
          bNum = (if rtest re_numeric bi then parseInt10 bi else None)
      in if aNum \<noteq> None \<and> bNum \<noteq> None then
           (if num_neq aNum bNum then (if num_gt aNum bNum then 1 else - 1)
            else compare_pre as bs)
         else if aNum \<noteq> None then - 1
         else if bNum \<noteq> None then 1
         else if str_less ai bi then - 1
         else if str_less bi ai then 1
         else compare_pre as bs)"

definition compare :: "version \<Rightarrow> version \<Rightarrow> int" where
  "compare a b =
     (if num_neq (major a) (major b) then (if num_gt (major a) (major b) then 1 else - 1)
      else if num_neq (minor a) (minor b) then (if num_gt (minor a) (minor b) then 1 else - 1)
      else if num_neq (patch a) (patch b) then (if num_gt (patch a) (patch b) then 1 else - 1)
      else if prerelease a = [] \<and> prerelease b \<noteq> [] then 1
      else if prerelease a \<noteq> [] \<and> prerelease b = [] then - 1
      else if prerelease a = [] \<and> prerelease b = [] then 0
      else compare_pre (prerelease a) (prerelease b))"

text \<open>\<open>parseInt(parts[i], 10) || 0\<close>\<close>

definition part_num :: "string list \<Rightarrow> nat \<Rightarrow> jsnum" where
  "part_num parts i = or0 (case nth_opt parts i of None \<Rightarrow> None | Some p \<Rightarrow> parseInt10 p)"

definition parsePartial :: "string \<Rightarrow> version \<times> bool" where
  "parsePartial str =
     (case parse str of
        Some v \<Rightarrow> (v, False)
      | None \<Rightarrow>
          (let parts = split_str ''.'' str
           in (\<lparr>major = part_num parts 0, minor = part_num parts 1, patch = part_num parts 2,
                prerelease = []\<rparr>,
               length parts < 3)))"

datatype cmp_op = GE | LE | GT | LT | EQ

record comparator =
  op :: cmp_op
  cversion :: version

definition mkver :: "jsnum \<Rightarrow> jsnum \<Rightarrow> jsnum \<Rightarrow> version" where
  "mkver ma mi pa = \<lparr>major = ma, minor = mi, patch = pa, prerelease = []\<rparr>"

definition mkcomp :: "cmp_op \<Rightarrow> version \<Rightarrow> comparator" where
  "mkcomp opr v = \<lparr>op = opr, cversion = v\<rparr>"

text \<open>\<open>[[{ op: '>=', version: 0.0.0 }]]\<close>\<close>

definition any_range :: "comparator list list" where
  "any_range = [[mkcomp GE (mkver (Some 0) (Some 0) (Some 0))]]"

definition bump :: "version \<Rightarrow> version" where
  "bump v =
     (if \<not> num_neq (minor v) (Some 0) \<and> \<not> num_neq (patch v) (Some 0)
      then mkver (num_succ (major v)) (Some 0) (Some 0)
      else mkver (major v) (num_succ (minor v)) (Some 0))"

text \<open>\<open>/^\s*(\S+)\s+-\s+(\S+)\s*$/\<close>\<close>

definition re_hyphen :: regex where
  "re_hyphen =
     Seqs [Bol, Star Space, Grp 1 (Plus NonSpace), Plus Space, Chr CHR ''-'', Plus Space,
           Grp 2 (Plus NonSpace), Star Space, Eol]"

text \<open>\<open>/^\^(.+)$/\<close>, \<open>/^~(.+)$/\<close>, \<open>/^(>=|<=|>|<|=)(.+)$/\<close>, \<open>/[xX*]/\<close>, \<open>/^(\d+)(?:\.(\d+))?$/\<close>\<close>

definition re_caret :: regex where
  "re_caret = Seqs [Bol, Chr CHR ''^'', Grp 1 (Plus Dot), Eol]"

definition re_tilde :: regex where
  "re_tilde = Seqs [Bol, Chr CHR ''~'', Grp 1 (Plus Dot), Eol]"

definition re_op :: regex where
  "re_op =
     Seqs [Bol,
           Grp 1 (Alt (Lit ''>='') (Alt (Lit ''<='') (Alt (Lit ''>'') (Alt (Lit ''<'') (Lit ''=''))))),
           Grp 2 (Plus Dot), Eol]"

definition re_x :: regex where
  "re_x = Cls (\<lambda>c. c = CHR ''x'' \<or> c = CHR ''X'' \<or> c = CHR ''*'')"

definition re_partial :: regex where
  "re_partial = Seqs [Bol, Grp 1 (Plus Digit), Opt (Seq (Chr CHR ''.'') (Grp 2 (Plus Digit))), Eol]"

definition op_of :: "string \<Rightarrow> cmp_op" where
  "op_of s =
     (if s = ''>='' then GE else if s = ''<='' then LE else if s = ''>'' then GT
      else if s = ''<'' then LT else EQ)"

definition is_wild :: "string \<Rightarrow> bool" where
  "is_wild p = (p = ''*'' \<or> p = ''x'' \<or> p = ''X'')"

text \<open>
  The two comparators of an x-range or a bare partial: \<open>maj\<close> alone gives
  \<open>[maj.0.0, (maj+1).0.0)\<close>, \<open>maj\<close> and \<open>min\<close> give \<open>[maj.min.0, maj.(min+1).0)\<close>.
\<close>

definition span_comps :: "jsnum \<Rightarrow> jsnum option \<Rightarrow> comparator list" where
  "span_comps maj mn =
     (case mn of
        None \<Rightarrow> [mkcomp GE (mkver maj (Some 0) (Some 0)),
                 mkcomp LT (mkver (num_succ maj) (Some 0) (Some 0))]
      | Some mi \<Rightarrow> [mkcomp GE (mkver maj mi (Some 0)),
                    mkcomp LT (mkver maj (num_succ mi) (Some 0))])"

text \<open>The comparators one token of a comparator set contributes (the body of the token loop).\<close>

definition token_comps :: "string \<Rightarrow> comparator list" where
  "token_comps token =
     (case rmatch re_caret token of
        Some m \<Rightarrow>
          (let v = fst (parsePartial (the (cap m 1)))
           in [mkcomp GE v,
               if num_neq (major v) (Some 0) then mkcomp LT (mkver (num_succ (major v)) (Some 0) (Some 0))
               else if num_neq (minor v) (Some 0) then mkcomp LT (mkver (Some 0) (num_succ (minor v)) (Some 0))
               else mkcomp LT (mkver (Some 0) (Some 0) (num_succ (patch v)))])
      | None \<Rightarrow>
     (case rmatch re_tilde token of
        Some m \<Rightarrow>
          (let v = fst (parsePartial (the (cap m 1)))
           in [mkcomp GE v, mkcomp LT (mkver (major v) (num_succ (minor v)) (Some 0))])
      | None \<Rightarrow>
     (case rmatch re_op token of
        Some m \<Rightarrow> [mkcomp (op_of (the (cap m 1))) (fst (parsePartial (the (cap m 2))))]
      | None \<Rightarrow>
     (if rtest re_x token then
        (let parts = split_str ''.'' token;
             p0 = the (nth_opt parts 0);
             maj = (if is_wild p0 then None else Some (parseInt10 p0));
             mn = (case nth_opt parts 1 of
                      None \<Rightarrow> None
                    | Some p1 \<Rightarrow> if p1 = [] \<or> is_wild p1 then None else Some (parseInt10 p1))
         in case maj of
              None \<Rightarrow> [mkcomp GE (mkver (Some 0) (Some 0) (Some 0))]
            | Some ma \<Rightarrow> span_comps ma mn)
      else
     (case parse token of
        Some plain \<Rightarrow> [mkcomp EQ plain]
      | None \<Rightarrow>
     (case rmatch re_partial token of
        Some m \<Rightarrow>
          span_comps (parseInt10 (the (cap m 1))) (map_option parseInt10 (cap m 2))
      | None \<Rightarrow> []))))))"

text \<open>The comparator set of one \<open>||\<close> alternative; \<open>None\<close> when it has no comparator.\<close>

definition part_set :: "string \<Rightarrow> comparator list option" where
  "part_set part =
     (case rmatch re_hyphen part of
        Some m \<Rightarrow>
          (let low = fst (parsePartial (the (cap m 1)));
               high = parsePartial (the (cap m 2))
           in Some [mkcomp GE low,
                    mkcomp (if snd high then LT else LE) (if snd high then bump (fst high) else fst high)])
      | None \<Rightarrow>
          (let comparators = concat (map token_comps (split_ws part))
           in if comparators \<noteq> [] then Some comparators else None))"

definition parseRange :: "string \<Rightarrow> comparator list list" where
  "parseRange rangeStr =
     (if rangeStr = [] \<or> rangeStr = ''*'' \<or> rangeStr = ''latest'' \<or> rangeStr = ''x''
         \<or> rangeStr = ''X''
      then any_range
      else (let orParts = map trim (split_str ''||'' rangeStr);
                sets = List.map_filter part_set orParts
            in if sets \<noteq> [] then sets else any_range))"

definition testComp :: "version \<Rightarrow> comparator \<Rightarrow> bool" where
  "testComp ver cm =
     (let c = compare ver (cversion cm)
      in case op cm of
           GE \<Rightarrow> c \<ge> 0 | LE \<Rightarrow> c \<le> 0 | GT \<Rightarrow> c > 0 | LT \<Rightarrow> c < 0 | EQ \<Rightarrow> c = 0)"

definition satisfies :: "string \<Rightarrow> string \<Rightarrow> bool" where
  "satisfies versionStr rangeStr =
     (case parse versionStr of
        None \<Rightarrow> False
      | Some ver \<Rightarrow>
          list_ex (\<lambda>cset. list_all (\<lambda>cm. testComp ver cm) cset) (parseRange rangeStr))"

text \<open>
  \<open>maxSatisfying\<close>: the entries are the pairs \<open>{raw, parsed}\<close>; versions that do not parse
  are dropped by the first filter.
\<close>

definition matching :: "string list \<Rightarrow> string \<Rightarrow> (string \<times> version) list" where
  "matching versions rangeStr =
     filter (\<lambda>v. satisfies (fst v) rangeStr)
       (filter (\<lambda>v. prerelease (snd v) = [])
          (List.map_filter (\<lambda>v. map_option (\<lambda>p. (v, p)) (parse v)) versions))"

definition maxSatisfying :: "string list \<Rightarrow> string \<Rightarrow> string option" where
  "maxSatisfying versions rangeStr =
     (case sort_cmp (\<lambda>a b. compare (snd b) (snd a)) (matching versions rangeStr) of
        [] \<Rightarrow> None
      | m # _ \<Rightarrow> Some (fst m))"

text \<open>A release version: numeric components and no prerelease identifiers.\<close>

definition release :: "version \<Rightarrow> bool" where
  "release v = (major v \<noteq> None \<and> minor v \<noteq> None \<and> patch v \<noteq> None \<and> prerelease v = [])"

section \<open>Tar extractor: \<open>npm-lite/tar.js\<close>\<close>

text \<open>
  A buffer is a list of bytes; bytes are 8-bit characters, so that the text the extractor
  reads out of a header is the byte string itself (\<open>toString('utf8')\<close> is taken as the
  identity, which it is on the ASCII bytes the extractor inspects: \<open>/\<close>, \<open>.\<close>, digits and
  \<open>NUL\<close>).
\<close>

definition NUL :: char where
  "NUL = CHR 0x00"

text \<open>
  \<open>buf.slice(start, end)\<close> for a \<open>start\<close> that is not negative: a negative \<open>end\<close> counts from
  the end of the buffer, the range is clamped to the buffer, and it is empty when \<open>end\<close> is
  not after \<open>start\<close>.
\<close>

definition slice :: "string \<Rightarrow> nat \<Rightarrow> int \<Rightarrow> string" where
  "slice buf start e =
     (let len = int (length buf);
          e1 = (if e < 0 then max (len + e) 0 else min e len)
      in take (nat e1 - start) (drop start buf))"

definition readString :: "string \<Rightarrow> nat \<Rightarrow> nat \<Rightarrow> string" where
  "readString buf offset len = takeWhile (\<lambda>c. c \<noteq> NUL) (take len (drop offset buf))"

text \<open>\<open>parseInt(s, 8)\<close>\<close>

definition is_octal :: "char \<Rightarrow> bool" where
  "is_octal c = (48 \<le> (of_char c :: nat) \<and> (of_char c :: nat) \<le> 55)"

definition parseInt8 :: "string \<Rightarrow> jsnum" where
  "parseInt8 s =
     (let t = trimStart s;
          neg = (case t of c # _ \<Rightarrow> c = CHR ''-'' | [] \<Rightarrow> False);
          u = (case t of c # cs \<Rightarrow> if c = CHR ''-'' \<or> c = CHR ''+'' then cs else t | [] \<Rightarrow> t);
          ds = takeWhile is_octal u;
          v = foldl (\<lambda>acc c. acc * 8 + digit_val c) 0 ds
      in if ds = [] then None else Some (if neg then - v else v))"

text \<open>
  \<open>readSize\<close>: base-256 when the high bit of the first byte is set, octal text otherwise.
\<close>

definition readSize :: "string \<Rightarrow> nat \<Rightarrow> nat \<Rightarrow> int" where
  "readSize buf offset len =
     (if (case nth_opt buf offset of Some b \<Rightarrow> 128 \<le> (of_char b :: nat) | None \<Rightarrow> False) then
        foldl (\<lambda>val b. val * 256 + int (of_char b)) 0 (take (len - 1) (drop (offset + 1) buf))
      else
        (let str = trim (readString buf offset len)
         in if str = [] then 0 else (case parseInt8 str of None \<Rightarrow> 0 | Some n \<Rightarrow> n)))"

definition isZeroBlock :: "string \<Rightarrow> bool" where
  "isZeroBlock buf = list_all (\<lambda>b. b = NUL) buf"

definition padTo512 :: "int \<Rightarrow> nat" where
  "padTo512 sz = (if sz > 0 then nat ((sz + 511) div 512) * 512 else 0)"

subsection \<open>\<open>path.join\<close> and \<open>path.dirname\<close> of the host (POSIX)\<close>

text \<open>
  Normalisation works on the segments between slashes: empty segments and \<open>.\<close> are dropped,
  \<open>..\<close> removes the segment before it; where there is none (or it is \<open>..\<close> itself) a
  relative path keeps the \<open>..\<close> and an absolute one drops it. The stack holds the kept
  segments, last first.
\<close>

fun norm_step :: "bool \<Rightarrow> string list \<Rightarrow> string \<Rightarrow> string list" where
  "norm_step allowAbove stack seg =
     (if seg = [] \<or> seg = ''.'' then stack
      else if seg = ''..'' then
        (case stack of
           [] \<Rightarrow> if allowAbove then [''..''] else []
         | t # ts \<Rightarrow> if t = ''..'' then (if allowAbove then ''..'' # t # ts else t # ts) else ts)
      else seg # stack)"

definition norm_segs :: "bool \<Rightarrow> string list \<Rightarrow> string list" where
  "norm_segs allowAbove segs = rev (foldl (norm_step allowAbove) [] segs)"

fun join_segs :: "string list \<Rightarrow> string" where
  "join_segs [] = []"
| "join_segs [s] = s"
| "join_segs (s # t # ts) = s @ ''/'' @ join_segs (t # ts)"

text \<open>The path text for a list of kept segments, with the leading and trailing slash.\<close>

definition render_path :: "bool \<Rightarrow> string list \<Rightarrow> bool \<Rightarrow> string" where
  "render_path isAbsolute segs trailingSeparator =
     (let q = join_segs segs
      in if q = [] then (if isAbsolute then ''/'' else if trailingSeparator then ''./'' else ''.'')
         else (if isAbsolute then ''/'' else []) @ q @ (if trailingSeparator then ''/'' else []))"

definition path_normalize :: "string \<Rightarrow> string" where
  "path_normalize p =
     (if p = [] then ''.''
      else render_path (hd p = CHR ''/'')
             (norm_segs (hd p \<noteq> CHR ''/'') (split_str ''/'' p))
             (last p = CHR ''/''))"

definition path_join :: "string \<Rightarrow> string \<Rightarrow> string" where
  "path_join a b =
     (if a = [] \<and> b = [] then ''.''
      else if a = [] then path_normalize b
      else if b = [] then path_normalize a
      else path_normalize (a @ ''/'' @ b))"

text \<open>
  \<open>path.dirname\<close>: \<open>body\<close> is the path from index 1 on without its trailing slashes; the
  result is what stands before the last slash of \<open>body\<close>.
\<close>

definition path_dirname :: "string \<Rightarrow> string" where
  "path_dirname p =
     (if p = [] then ''.''
      else
        (let hasRoot = (hd p = CHR ''/'');
             body = rev (dropWhile (\<lambda>c. c = CHR ''/'') (rev (tl p)));
             pre = rev (tl (dropWhile (\<lambda>c. c \<noteq> CHR ''/'') (rev body)))
         in if CHR ''/'' \<notin> set body then (if hasRoot then ''/'' else ''.'')
            else if hasRoot \<and> pre = [] then ''//''
            else hd p # pre))"

subsection \<open>The extractor\<close>

text \<open>
  The calls the extractor makes on the file system, in order: \<open>fs.mkdirSync(p, {recursive})\<close>,
  \<open>fs.symlinkSync(target, p)\<close> (whose failure is ignored) and \<open>fs.writeFileSync(p, data)\<close>.
  The model lists the calls issued as long as none of them (nor the allocation of the data
  buffer) throws; the file system itself is not modelled.
\<close>

datatype fs_op = Mkdir string | Symlink string string | WriteFile string string

definition endsWith :: "string \<Rightarrow> string \<Rightarrow> bool" where
  "endsWith s suf = (length suf \<le> length s \<and> drop (length s - length suf) s = suf)"

text \<open>\<open>name.slice(slashIdx + 1)\<close> when the name has a slash, the name itself otherwise.\<close>

definition relativePath :: "string \<Rightarrow> string" where
  "relativePath name = (case indexOf name ''/'' of Some i \<Rightarrow> drop (i + 1) name | None \<Rightarrow> name)"

text \<open>
  \<open>Buffer.alloc(size)\<close> filled by \<open>tarBuffer.copy(data, 0, offset, offset + size)\<close>: the bytes
  the archive has from \<open>offset\<close>, zero-filled up to \<open>size\<close>.
\<close>

definition file_data :: "string \<Rightarrow> nat \<Rightarrow> int \<Rightarrow> string" where
  "file_data tarBuffer offset sz =
     (let d = slice tarBuffer offset (int offset + sz)
      in d @ replicate (nat sz - length d) NUL)"

text \<open>
  The part of the loop body that handles a real entry, once the extended name is applied:
  \<open>offset\<close> is where the entry's data starts.
\<close>

definition entry_ops :: "string \<Rightarrow> string \<Rightarrow> nat \<Rightarrow> string \<Rightarrow> char \<Rightarrow> string \<Rightarrow> int \<Rightarrow> fs_op list" where
  "entry_ops tarBuffer destDir offset name typeFlag linkname sz =
     (let rel = relativePath name
      in if rel = [] \<or> rel = ''.'' \<or> rel = ''./'' then []
         else if str_includes rel ''..'' then []
         else
           (let fullPath = path_join destDir rel
            in if typeFlag = CHR ''5'' \<or> endsWith name ''/'' then [Mkdir fullPath]
               else if typeFlag = CHR ''2'' then
                 [Mkdir (path_dirname fullPath), Symlink linkname fullPath]
               else if typeFlag = CHR ''0'' \<or> typeFlag = NUL then
                 (if sz > 0 then
                    [Mkdir (path_dirname fullPath), WriteFile fullPath (file_data tarBuffer offset sz)]
                  else [Mkdir (path_dirname fullPath), WriteFile fullPath []])
               else []))"

text \<open>\<open>/\d+ path=(.+)\n/\<close> and \<open>/\0+$/\<close>\<close>

definition re_pax_path :: regex where
  "re_pax_path = Seqs [Plus Digit, Lit '' path='', Grp 1 (Plus Dot), Chr CHR 0x0A]"

definition re_trailing_nuls :: regex where
  "re_trailing_nuls = Seqs [Plus (Chr NUL), Eol]"

text \<open>\<open>if (s)\<close> on a string or \<open>null\<close>: the empty string and \<open>null\<close> are falsy.\<close>

definition truthy :: "string option \<Rightarrow> bool" where
  "truthy s = (case s of None \<Rightarrow> False | Some t \<Rightarrow> t \<noteq> [])"

text \<open>The \<open>while\<close> loop of \<open>extract\<close>; the result is the file system calls it makes.\<close>

function extract_loop ::
  "string \<Rightarrow> string \<Rightarrow> nat \<Rightarrow> string option \<Rightarrow> string option \<Rightarrow> fs_op list" where
  "extract_loop tarBuffer destDir offset paxPath gnuLongName =
     (if \<not> offset + 512 \<le> length tarBuffer then []
      else
        (let header = slice tarBuffer offset (int offset + 512)
         in if isZeroBlock header then []
            else
              (let name = readString header 0 100;
                   sz = readSize header 124 12;
                   typeFlag = header ! 156;
                   linkname = readString header 157 100;
                   prefix = readString header 345 155;
                   offset1 = offset + 512
               in if typeFlag = CHR ''x'' \<or> typeFlag = CHR ''X'' then
                    extract_loop tarBuffer destDir (offset1 + padTo512 sz)
                      (case rmatch re_pax_path (slice tarBuffer offset1 (int offset1 + sz)) of
                         Some m \<Rightarrow> cap m 1 | None \<Rightarrow> paxPath)
                      gnuLongName
                  else if typeFlag = CHR ''g'' then
                    extract_loop tarBuffer destDir (offset1 + padTo512 sz) paxPath gnuLongName
                  else if typeFlag = CHR ''L'' then
                    extract_loop tarBuffer destDir (offset1 + padTo512 sz) paxPath
                      (Some (replace_first re_trailing_nuls (\<lambda>mt m. [])
                               (slice tarBuffer offset1 (int offset1 + sz))))
                  else if truthy paxPath then
                    entry_ops tarBuffer destDir offset1 (the paxPath) typeFlag linkname sz
                    @ extract_loop tarBuffer destDir (offset1 + padTo512 sz) None gnuLongName
                  else if truthy gnuLongName then
                    entry_ops tarBuffer destDir offset1 (the gnuLongName) typeFlag linkname sz
                    @ extract_loop tarBuffer destDir (offset1 + padTo512 sz) paxPath None
                  else
                    entry_ops tarBuffer destDir offset1
                      (if prefix \<noteq> [] then prefix @ ''/'' @ name else name) typeFlag linkname sz
                    @ extract_loop tarBuffer destDir (offset1 + padTo512 sz) paxPath gnuLongName)))"
  by pat_completeness auto
termination
  by (relation "measure (\<lambda>(tarBuffer, destDir, offset, paxPath, gnuLongName). length tarBuffer - offset)")
     auto

declare extract_loop.simps [simp del]

text \<open>
  \<open>extract\<close> (named \<open>tar_extract\<close> here): \<open>zlib.gunzip\<close> is the host's; a failure of it rejects the call before any file
  system call is made.
\<close>

datatype extract_error = GunzipError

definition tar_extract :: "(string \<Rightarrow> string option) \<Rightarrow> string \<Rightarrow> string \<Rightarrow> extract_error + fs_op list" where
  "tar_extract gunzip tgzBuffer destDir =
     (case gunzip tgzBuffer of
        None \<Rightarrow> Inl GunzipError
      | Some tarBuffer \<Rightarrow> Inr (extract_loop tarBuffer destDir 0 None None))"

text \<open>
  Archives for the examples: a field padded with \<open>NUL\<close> to its width, and a ustar header
  block with a name (offset 0), a size field (offset 124) and a type flag (offset 156), every
  other byte zero; \<open>tar_header_link\<close> also fills the link name (offset 157).
\<close>

definition pad :: "nat \<Rightarrow> string \<Rightarrow> string" where
  "pad n s = s @ replicate (n - length s) NUL"

definition tar_header :: "string \<Rightarrow> string \<Rightarrow> char \<Rightarrow> string" where
  "tar_header name sz typeFlag =
     pad 100 name @ replicate 24 NUL @ pad 12 sz @ replicate 20 NUL @ [typeFlag]
     @ replicate 355 NUL"

definition tar_header_link :: "string \<Rightarrow> string \<Rightarrow> char \<Rightarrow> string \<Rightarrow> string" where
  "tar_header_link name sz typeFlag linkname =
     pad 100 name @ replicate 24 NUL @ pad 12 sz @ replicate 20 NUL @ [typeFlag]
     @ pad 100 linkname @ replicate 255 NUL"

section \<open>Preview server: \<open>dev-server.js\<close>\<close>

text \<open>The quote characters \<open>'\<close>, \<open>"\<close> and the backtick, and the line feed.\<close>

definition SQ :: char where
  "SQ = CHR 0x27"

definition DQ :: char where
  "DQ = CHR 0x22"

definition BQ :: char where
  "BQ = CHR 0x60"

definition LF :: char where
  "LF = CHR 0x0A"

definition is_quote2 :: "char \<Rightarrow> bool" where
  "is_quote2 c = (c = SQ \<or> c = DQ)"

definition is_quote3 :: "char \<Rightarrow> bool" where
  "is_quote3 c = (c = DQ \<or> c = SQ \<or> c = BQ)"

text \<open>\<open>Array.prototype.join\<close>\<close>

fun join_with :: "string \<Rightarrow> string list \<Rightarrow> string" where
  "join_with sep [] = []"
| "join_with sep [s] = s"
| "join_with sep (s # t # ts) = s @ sep @ join_with sep (t # ts)"

subsection \<open>\<open>transformModules\<close>\<close>

text \<open>\<open>['"]\<close> and \<open>[^'"]+\<close>\<close>

definition Quote :: regex where
  "Quote = Cls is_quote2"

definition ModName :: regex where
  "ModName = Plus (Cls (\<lambda>c. \<not> is_quote2 c))"

text \<open>\<open>/import\s+(\w+)\s+from\s+['"]([^'"]+)['"]\s*;?/g\<close>\<close>

definition re_import_default :: regex where
  "re_import_default =
     Seqs [Lit ''import'', Plus Space, Grp 1 (Plus Word), Plus Space, Lit ''from'', Plus Space,
           Quote, Grp 2 ModName, Quote, Star Space, Opt (Chr CHR '';'')]"

text \<open>\<open>/import\s*\{([^}]+)\}\s*from\s*['"]([^'"]+)['"]\s*;?/g\<close>\<close>

definition re_import_named :: regex where
  "re_import_named =
     Seqs [Lit ''import'', Star Space, Chr CHR ''{'', Grp 1 (Plus (Cls (\<lambda>c. c \<noteq> CHR ''}''))),
           Chr CHR ''}'', Star Space, Lit ''from'', Star Space,
           Quote, Grp 2 ModName, Quote, Star Space, Opt (Chr CHR '';'')]"

text \<open>\<open>/import\s*\*\s*as\s+(\w+)\s+from\s+['"]([^'"]+)['"]\s*;?/g\<close>\<close>

definition re_import_star :: regex where
  "re_import_star =
     Seqs [Lit ''import'', Star Space, Chr CHR ''*'', Star Space, Lit ''as'', Plus Space,
           Grp 1 (Plus Word), Plus Space, Lit ''from'', Plus Space,
           Quote, Grp 2 ModName, Quote, Star Space, Opt (Chr CHR '';'')]"

text \<open>\<open>/import\s+['"]([^'"]+)['"]\s*;?/g\<close>\<close>

definition re_import_bare :: regex where
  "re_import_bare =
     Seqs [Lit ''import'', Plus Space, Quote, Grp 1 ModName, Quote, Star Space,
           Opt (Chr CHR '';'')]"

text \<open>
  \<open>/export\s+default\s+function\s+(\w+)/g\<close>, \<open>/export\s+default\s+/g\<close>,
  \<open>/^function\s+(\w+)/m\<close>, \<open>/export\s+function\s+(\w+)/g\<close> and
  \<open>/export\s+(const|let|var)\s+(\w+)/g\<close>
\<close>

definition re_export_default_fn :: regex where
  "re_export_default_fn =
     Seqs [Lit ''export'', Plus Space, Lit ''default'', Plus Space, Lit ''function'', Plus Space,
           Grp 1 (Plus Word)]"

definition re_export_default :: regex where
  "re_export_default = Seqs [Lit ''export'', Plus Space, Lit ''default'', Plus Space]"

definition re_function_line :: regex where
  "re_function_line = Seqs [BolM, Lit ''function'', Plus Space, Grp 1 (Plus Word)]"

definition re_export_fn :: regex where
  "re_export_fn = Seqs [Lit ''export'', Plus Space, Lit ''function'', Plus Space, Grp 1 (Plus Word)]"

definition re_export_decl :: regex where
  "re_export_decl =
     Seqs [Lit ''export'', Plus Space,
           Grp 1 (Alt (Lit ''const'') (Alt (Lit ''let'') (Lit ''var''))), Plus Space,
           Grp 2 (Plus Word)]"

definition transformModules :: "string \<Rightarrow> string" where
  "transformModules code0 =
     (let code1 = replace_all re_import_default
            (\<lambda>mt m. ''const '' @ the (cap m 1) @ '' = (function() { var _m = require(''
                     @ [SQ] @ the (cap m 2) @ [SQ]
                     @ ''); return _m && _m.__esModule ? _m.default : _m; })();'')
            code0;
          code2 = replace_all re_import_named
            (\<lambda>mt m. ''const { '' @ trim (the (cap m 1)) @ '' } = require('' @ [SQ] @ the (cap m 2)
                     @ [SQ] @ '');'')
            code1;
          code3 = replace_all re_import_star
            (\<lambda>mt m. ''const '' @ the (cap m 1) @ '' = require('' @ [SQ] @ the (cap m 2) @ [SQ]
                     @ '');'')
            code2;
          code4 = replace_all re_import_bare
            (\<lambda>mt m. ''require('' @ [SQ] @ the (cap m 1) @ [SQ] @ '');'')
            code3;
          code5 = replace_all re_export_default_fn (\<lambda>mt m. ''function '' @ the (cap m 1)) code4;
          code6 = replace_all re_export_default (\<lambda>mt m. ''module.exports = '') code5;
          code7 = (case rmatch re_function_line code6 of
                     Some m \<Rightarrow>
                       if \<not> str_includes code6 ''module.exports''
                       then code6 @ [LF] @ ''module.exports = '' @ the (cap m 1) @ '';''
                       else code6
                   | None \<Rightarrow> code6);
          code8 = replace_all re_export_fn (\<lambda>mt m. ''function '' @ the (cap m 1)) code7;
          code9 = replace_all re_export_decl (\<lambda>mt m. the (cap m 1) @ '' '' @ the (cap m 2)) code8
      in code9)"

subsection \<open>The JSX scanner\<close>

text \<open>
  The scanner and its parsers only look forward from their position, so a position \<open>i\<close> in
  \<open>code\<close> is modelled by the text from \<open>i\<close> on, and an end position by the text that is left.
\<close>

text \<open>
  The string skip of the scanner and of \<open>parseExpression\<close>, after the opening quote: the
  text copied (with the closing quote when there is one) and the text left.
\<close>

fun skip_string :: "char \<Rightarrow> string \<Rightarrow> string \<times> string" where
  "skip_string q [] = ([], [])"
| "skip_string q (c # cs) =
     (if c = q then ([c], cs)
      else if c = CHR 0x5C then
        (case cs of
           [] \<Rightarrow> ([c], [])
         | d # ds \<Rightarrow> (let (r, rest') = skip_string q ds in (c # d # r, rest')))
      else (let (r, rest') = skip_string q cs in (c # r, rest')))"

text \<open>
  The multi-line comment skip, after \<open>/*\<close>: it stops before the last character when no
  \<open>*/\<close> is found.
\<close>

fun skip_comment :: "string \<Rightarrow> string \<times> string" where
  "skip_comment [] = ([], [])"
| "skip_comment [c] = ([], [c])"
| "skip_comment (c # d # ds) =
     (if c = CHR ''*'' \<and> d = CHR ''/'' then (''*/'', ds)
      else (let (r, rest') = skip_comment (d # ds) in (c # r, rest')))"

text \<open>\<open>JSON.stringify\<close> of a string.\<close>

definition hex_digit :: "nat \<Rightarrow> char" where
  "hex_digit n = (if n < 10 then char_of (48 + n) else char_of (87 + n))"

definition json_escape :: "char \<Rightarrow> string" where
  "json_escape c =
     (let n = (of_char c :: nat)
      in if c = DQ then [CHR 0x5C, DQ]
         else if c = CHR 0x5C then [CHR 0x5C, CHR 0x5C]
         else if n = 8 then [CHR 0x5C, CHR ''b'']
         else if n = 12 then [CHR 0x5C, CHR ''f'']
         else if n = 10 then [CHR 0x5C, CHR ''n'']
         else if n = 13 then [CHR 0x5C, CHR ''r'']
         else if n = 9 then [CHR 0x5C, CHR ''t'']
         else if n < 32 then [CHR 0x5C, CHR ''u'', CHR ''0'', CHR ''0'', hex_digit (n div 16), hex_digit (n mod 16)]
         else [c])"

definition json_string :: "string \<Rightarrow> string" where
  "json_string s = [DQ] @ concat (map json_escape s) @ [DQ]"

definition normProp :: "string \<Rightarrow> string" where
  "normProp name = (if str_includes name ''-'' then [DQ] @ name @ [DQ] else name)"

definition buildPropsStr :: "string list \<Rightarrow> string list \<Rightarrow> string" where
  "buildPropsStr props spreads =
     (if props = [] \<and> spreads = [] then ''null''
      else if spreads \<noteq> [] then
        ''Object.assign({}, '' @ join_with '', '' spreads @ '', { '' @ join_with '', '' props @ '' })''
      else ''{ '' @ join_with '', '' props @ '' }'')"

text \<open>\<open>[a-zA-Z_]\<close>, \<open>[a-zA-Z0-9_.$]\<close> (tag names) and \<open>[a-zA-Z0-9_-]\<close> (prop names).\<close>

definition is_tag_start :: "char \<Rightarrow> bool" where
  "is_tag_start c = (is_alpha c \<or> c = CHR ''_'')"

definition is_tag_char :: "char \<Rightarrow> bool" where
  "is_tag_char c = (is_alpha c \<or> is_digit c \<or> c = CHR ''_'' \<or> c = CHR ''.'' \<or> c = CHR ''$'')"

definition is_prop_char :: "char \<Rightarrow> bool" where
  "is_prop_char c = (is_alpha c \<or> is_digit c \<or> c = CHR ''_'' \<or> c = CHR ''-'')"

text \<open>\<open>code[i] === a && code[i + 1] === b\<close>\<close>

definition starts2 :: "string \<Rightarrow> char \<Rightarrow> char \<Rightarrow> bool" where
  "starts2 s a b = (case s of c # d # _ \<Rightarrow> c = a \<and> d = b | _ \<Rightarrow> False)"

text \<open>The tag argument of the call and the text of an element's call.\<close>

definition tagStr :: "string \<Rightarrow> string" where
  "tagStr tagName = (if tagName \<noteq> [] \<and> is_upper (hd tagName) then tagName else [DQ] @ tagName @ [DQ])"

definition childStr :: "string list \<Rightarrow> string" where
  "childStr children = (if children \<noteq> [] then '', '' @ join_with '', '' children else [])"

definition push_child :: "string list \<Rightarrow> string \<Rightarrow> string list" where
  "push_child children out = (if trim out \<noteq> [] then children @ [out] else children)"

text \<open>
  The parsers \<open>parseJSXFragment\<close>, \<open>parseJSXElement\<close>, \<open>parseJSXChild\<close> and
  \<open>parseExpression\<close> call each other; they are one function on the following calls, with one
  call for each of their loops, carrying the loop's variables. The result of a parser is
  \<open>Some (output, text left)\<close> or \<open>None\<close> for \<open>null\<close>; the outer \<open>option\<close> is \<open>None\<close> when the
  source does not return (a child that consumes nothing makes the children loops spin).
  \<open>ExprLoop\<close> returns the value and the text left at \<open>end\<close> (its callers go on at
  \<open>end + 1\<close>).
\<close>

datatype jcall =
    Fragment string
  | FragLoop "string list" string
  | Element string
  | PropsLoop string "string list" "string list" string
  | ChildLoop string "string list" "string list" "string list" string
  | Child string
  | ExprLoop char int string string

partial_function (option) jsx :: "jcall \<Rightarrow> (string \<times> string) option option" where
  "jsx call =
     (case call of
        Fragment s \<Rightarrow> jsx (FragLoop [] (drop 2 s))
      | FragLoop children s \<Rightarrow>
          (if s = [] then Some None
           else if take 3 s = ''</>'' then
             Some (Some (''React.createElement(React.Fragment, null'' @ childStr children @ '')'',
                         drop 3 s))
           else
             Option.bind (jsx (Child s))
               (\<lambda>child. case child of
                    None \<Rightarrow> Some None
                  | Some (out, s') \<Rightarrow> jsx (FragLoop (push_child children out) s')))
      | Element s \<Rightarrow>
          (let tagName = takeWhile is_tag_char (drop 1 s);
               s1 = dropWhile is_tag_char (drop 1 s)
           in if tagName = [] then Some None else jsx (PropsLoop tagName [] [] s1))
      | PropsLoop tagName props spreads s0 \<Rightarrow>
          (if s0 = [] then jsx (ChildLoop tagName props spreads [] s0)
           else
             (let s = dropWhile is_space s0
              in if starts2 s CHR ''/'' CHR ''>'' then
                   Some (Some (''React.createElement('' @ tagStr tagName @ '', ''
                                 @ buildPropsStr props spreads @ '')'', drop 2 s))
                 else if take 1 s = ''>'' then jsx (ChildLoop tagName props spreads [] (drop 1 s))
                 else if take 4 s = ''{...'' then
                   Option.bind (jsx (ExprLoop CHR ''}'' 0 [] (drop 4 s)))
                     (\<lambda>expr. case expr of
                          None \<Rightarrow> Some None
                        | Some (v, s') \<Rightarrow> jsx (PropsLoop tagName props (spreads @ [v]) (drop 1 s')))
                 else
                   (let propName = takeWhile is_prop_char s;
                        s2 = dropWhile is_prop_char s
                    in if propName = [] then jsx (ChildLoop tagName props spreads [] s2)
                       else if take 1 s2 = ''='' then
                         (let s3 = drop 1 s2
                          in if s3 \<noteq> [] \<and> is_quote2 (hd s3) then
                               (let quote = hd s3;
                                    val = takeWhile (\<lambda>c. c \<noteq> quote) (tl s3);
                                    s4 = drop 1 (dropWhile (\<lambda>c. c \<noteq> quote) (tl s3))
                                in jsx (PropsLoop tagName
                                          (props @ [normProp propName @ '': '' @ [DQ] @ val @ [DQ]])
                                          spreads s4))
                             else if take 1 s3 = ''{'' then
                               Option.bind (jsx (ExprLoop CHR ''}'' 0 [] (drop 1 s3)))
                                 (\<lambda>expr. case expr of
                                      None \<Rightarrow> Some None
                                    | Some (v, s') \<Rightarrow>
                                        jsx (PropsLoop tagName
                                               (props @ [normProp propName @ '': '' @ v])
                                               spreads (drop 1 s')))
                             else jsx (PropsLoop tagName props spreads s3))
                       else jsx (PropsLoop tagName (props @ [normProp propName @ '': true''])
                                   spreads s2))))
      | ChildLoop tagName props spreads children s \<Rightarrow>
          (if s = [] then Some None
           else
             (let closeTag = ''</'' @ tagName @ ''>''
              in if take (length closeTag) s = closeTag then
                   Some (Some (''React.createElement('' @ tagStr tagName @ '', ''
                                 @ buildPropsStr props spreads @ childStr children @ '')'',
                               drop (length closeTag) s))
                 else
                   Option.bind (jsx (Child s))
                     (\<lambda>child. case child of
                          None \<Rightarrow> Some None
                        | Some (out, s') \<Rightarrow>
                            jsx (ChildLoop tagName props spreads (push_child children out) s'))))
      | Child s0 \<Rightarrow>
          (let s = dropWhile (\<lambda>c. is_space c \<and> c \<noteq> LF) s0
           in if starts2 s CHR ''<'' CHR ''/'' then Some (Some ([], s))
              else if starts2 s CHR ''<'' CHR ''>'' then jsx (Fragment s)
              else if take 1 s = ''<'' \<and> (case drop 1 s of [] \<Rightarrow> True | d # _ \<Rightarrow> is_tag_start d)
                then jsx (Element s)
              else if take 1 s = ''{'' then
                Option.bind (jsx (ExprLoop CHR ''}'' 0 [] (drop 1 s)))
                  (\<lambda>expr. case expr of
                       None \<Rightarrow> Some None
                     | Some (v, s') \<Rightarrow> Some (Some (v, drop 1 s')))
              else
                (let text = takeWhile (\<lambda>c. c \<noteq> CHR ''<'' \<and> c \<noteq> CHR ''{'') s;
                     s' = dropWhile (\<lambda>c. c \<noteq> CHR ''<'' \<and> c \<noteq> CHR ''{'') s
                 in if trim text \<noteq> [] then Some (Some (json_string (trim text), s'))
                    else Some (Some ([], s'))))
      | ExprLoop endChar depth0 val s \<Rightarrow>
          (case s of
             [] \<Rightarrow> Some (Some (val, s))
           | c # cs \<Rightarrow>
               (let depth1 = (if c = CHR ''{'' \<or> c = CHR ''('' \<or> c = CHR ''['' then depth0 + 1 else depth0);
                    closing = (c = CHR ''}'' \<or> c = CHR '')'' \<or> c = CHR '']'')
                in if closing \<and> depth1 = 0 \<and> c = endChar then Some (Some (val, s))
                   else
                     (let depth = (if closing then depth1 - 1 else depth1)
                      in if is_quote3 c then
                           (let (copied, s') = skip_string c cs
                            in jsx (ExprLoop endChar depth (val @ [c] @ copied) s'))
                         else if c = CHR ''<''
                                 \<and> (case cs of [] \<Rightarrow> False | d # _ \<Rightarrow> is_tag_start d \<or> d = CHR ''>'')
                         then
                           Option.bind
                             (if take 1 cs = ''>'' then jsx (Fragment s) else jsx (Element s))
                             (\<lambda>r. case r of
                                  Some (out, s') \<Rightarrow> jsx (ExprLoop endChar depth (val @ out) s')
                                | None \<Rightarrow> jsx (ExprLoop endChar depth (val @ [c]) cs))
                         else jsx (ExprLoop endChar depth (val @ [c]) cs)))))"

declare jsx.simps [code]

definition parseJSXFragment :: "string \<Rightarrow> (string \<times> string) option option" where
  "parseJSXFragment s = jsx (Fragment s)"

definition parseJSXElement :: "string \<Rightarrow> (string \<times> string) option option" where
  "parseJSXElement s = jsx (Element s)"

text \<open>
  \<open>/[a-zA-Z0-9_$)\]]/\<close>, \<open>/(\w+)\s*$/\<close> of \<open>getLastWord\<close>, and the keyword test
  \<open>/return|case|in|of|typeof|instanceof|void|delete|throw|new|yield|await/\<close>.
\<close>

definition is_operand_end :: "char \<Rightarrow> bool" where
  "is_operand_end c =
     (is_alpha c \<or> is_digit c \<or> c = CHR ''_'' \<or> c = CHR ''$'' \<or> c = CHR '')'' \<or> c = CHR '']'')"

definition re_last_word :: regex where
  "re_last_word = Seqs [Grp 1 (Plus Word), Star Space, Eol]"

definition getLastWord :: "string \<Rightarrow> string" where
  "getLastWord str = (case rmatch re_last_word str of Some m \<Rightarrow> the (cap m 1) | None \<Rightarrow> [])"

definition re_keywords :: regex where
  "re_keywords =
     foldr Alt (map Lit [''return'', ''case'', ''in'', ''of'', ''typeof'', ''instanceof'', ''void'',
                         ''delete'', ''throw'', ''new'', ''yield''])
       (Lit ''await'')"

definition isComparison :: "string \<Rightarrow> bool" where
  "isComparison result =
     (let bef = trimEnd result
      in bef \<noteq> [] \<and> is_operand_end (last bef) \<and> \<not> rtest re_keywords (getLastWord bef))"

text \<open>
  The loop of \<open>transformJSXSyntax\<close>: \<open>result\<close> and the text from \<open>i\<close> on. It returns nothing
  when a parser it calls does not return.
\<close>

partial_function (option) scan :: "string \<Rightarrow> string \<Rightarrow> string option" where
  "scan result s =
     (case s of
        [] \<Rightarrow> Some result
      | c # cs \<Rightarrow>
          if is_quote3 c then
            (let (copied, s') = skip_string c cs in scan (result @ [c] @ copied) s')
          else if starts2 s CHR ''/'' CHR ''/'' then
            scan (result @ takeWhile (\<lambda>d. d \<noteq> LF) s) (dropWhile (\<lambda>d. d \<noteq> LF) s)
          else if starts2 s CHR ''/'' CHR ''*'' then
            (let (copied, s') = skip_comment (drop 2 s) in scan (result @ ''/*'' @ copied) s')
          else if c = CHR ''<'' \<and> cs \<noteq> [] then
            Option.bind
              (if hd cs = CHR ''>'' then parseJSXFragment s
               else if is_tag_start (hd cs) \<and> \<not> isComparison result then parseJSXElement s
               else Some None)
              (\<lambda>r. case r of
                   Some (out, s') \<Rightarrow> scan (result @ out) s'
                 | None \<Rightarrow> scan (result @ [c]) cs)
          else scan (result @ [c]) cs)"

declare scan.simps [code]

definition transformJSXSyntax :: "string \<Rightarrow> string option" where
  "transformJSXSyntax code = scan [] code"

definition transformJSX :: "string \<Rightarrow> string option" where
  "transformJSX code = transformJSXSyntax (transformModules code)"

subsection \<open>Entry selection of \<open>buildHTML\<close>\<close>

text \<open>
  \<open>fileList\<close> is the list of the paths of the project files, in the order \<open>buildHTML\<close> meets
  them. \<open>entryFile\<close>, \<open>appFile\<close> and \<open>entryScript\<close> are the local variables of that name.
\<close>

definition entryFile :: "string list \<Rightarrow> string option" where
  "entryFile fileList =
     (if ''/index.js'' \<in> set fileList then Some ''/index.js''
      else if ''/index.jsx'' \<in> set fileList then Some ''/index.jsx''
      else if ''/index.tsx'' \<in> set fileList then Some ''/index.tsx''
      else None)"

definition appFile :: "string list \<Rightarrow> string option" where
  "appFile fileList =
     (if ''/App.js'' \<in> set fileList then Some ''/App.js''
      else if ''/App.jsx'' \<in> set fileList then Some ''/App.jsx''
      else if ''/App.tsx'' \<in> set fileList then Some ''/App.tsx''
      else (case fileList of [] \<Rightarrow> None | f # _ \<Rightarrow> if f = [] then None else Some f))"

text \<open>The three forms of the entry script.\<close>

definition require_entry :: "string \<Rightarrow> string" where
  "require_entry f = ''__require('' @ json_string f @ '', '' @ [SQ] @ ''/'' @ [SQ] @ '');''"

definition render_app :: "string \<Rightarrow> string" where
  "render_app f =
     [LF] @ ''      var _app = __require('' @ json_string f @ '', '' @ [SQ] @ ''/'' @ [SQ] @ '');''
     @ [LF] @ ''      var _AppComponent = _app.default || _app;''
     @ [LF] @ ''      var _root = ReactDOM.createRoot(document.getElementById('' @ [SQ] @ ''root''
     @ [SQ] @ ''));''
     @ [LF] @ ''      _root.render(React.createElement(_AppComponent));''
     @ [LF] @ ''    ''"

definition no_entry :: string where
  "no_entry =
     ''document.getElementById('' @ [SQ] @ ''root'' @ [SQ] @ '').innerHTML = '' @ [SQ]
     @ ''<p style=\"color:#888;padding:16px;\">No entry file found. Create App.js or index.js</p>''
     @ [SQ] @ '';''"

definition entryScript :: "string list \<Rightarrow> string" where
  "entryScript fileList =
     (case entryFile fileList of
        Some f \<Rightarrow> require_entry f
      | None \<Rightarrow>
          (case appFile fileList of
             Some a \<Rightarrow> render_app a
           | None \<Rightarrow> no_entry))"

section \<open>Message loop: \<open>main.js\<close>\<close>

text \<open>
  A parsed JSON value. An object is its list of members; a missing member reads as
  \<open>undefined\<close>, which is \<open>None\<close> of the option type. Numbers are integers (identifiers and
  exit codes).
\<close>

datatype json =
    JNull
  | JBool bool
  | JNum int
  | JStr string
  | JArr "json list"
  | JObj "(string \<times> json) list"


text \<open>Truthiness of a value that may be \<open>undefined\<close>.\<close>

definition js_truthy :: "json option \<Rightarrow> bool" where
  "js_truthy v =
     (case v of
        None \<Rightarrow> False
      | Some JNull \<Rightarrow> False
      | Some (JBool b) \<Rightarrow> b
      | Some (JNum n) \<Rightarrow> n \<noteq> 0
      | Some (JStr s) \<Rightarrow> s \<noteq> []
      | Some _ \<Rightarrow> True)"

text \<open>
  A frame is the object handed to \<open>send\<close>; \<open>JSON.stringify\<close> leaves out the members that are
  \<open>undefined\<close>.
\<close>

type_synonym frame = "(string \<times> json) list"

definition mk_frame :: "(string \<times> json option) list \<Rightarrow> frame" where
  "mk_frame ms = List.map_filter (\<lambda>(k, v). map_option (\<lambda>x. (k, x)) v) ms"

definition frame_type :: "frame \<Rightarrow> json option" where
  "frame_type f = map_of f ''type''"












definition error_frame :: "json option \<Rightarrow> string \<Rightarrow> frame" where
  "error_frame msg_id message =
     mk_frame [(''id'', msg_id), (''type'', Some (JStr ''error'')), (''message'', Some (JStr message))]"

text \<open>The text of a value inside a template literal (\<open>String(v)\<close>).\<close>

fun dec_nat :: "nat \<Rightarrow> string" where
  "dec_nat n = (if n < 10 then [char_of (48 + n)] else dec_nat (n div 10) @ [char_of (48 + n mod 10)])"









section \<open>Script runner: \<open>script-runner.js\<close>\<close>

text \<open>
  What the user's code does when the runner evaluates it, as far as the runner sees it: the
  lines it writes through the redirected console (\<open>True\<close> for stdout), and how the evaluation
  ends: it returns, it calls \<open>process.exit(code)\<close> (the \<open>ExitSignal\<close> of the runner), or it
  raises another error, given by the text \<open>formatError\<close> makes of it (for \<open>runEval\<close>: its
  message).
\<close>

datatype script_end = Completes | ExitCalled int | Throws string

record script =
  writes :: "(bool \<times> string) list"
  ending :: script_end

text \<open>
  The host as the runner uses it: \<open>load cwd file\<close> is the behaviour of the file that
  \<open>path.resolve(cwd, file)\<close> names, \<open>None\<close> when \<open>fs.existsSync\<close> is false; \<open>evaluate\<close> is
  \<open>vm.runInThisContext\<close> on the text of \<open>-e\<close>/\<open>-p\<close>, with the text of the value it yields
  (\<open>None\<close> for \<open>undefined\<close>).
\<close>

record runner_host =
  load :: "string \<Rightarrow> string \<Rightarrow> script option"
  evaluate :: "string \<Rightarrow> script \<times> string option"

text \<open>
  The cancellation token when the runner reaches its wait, and the event that ends the wait
  of a token that is not yet aborted: the immediate set by \<open>setImmediate(resolve)\<close> fires, or
  the \<open>abort\<close> listener runs first.
\<close>

record abort_signal =
  aborted :: bool

datatype wait_end = ImmediateFired | AbortFired

text \<open>
  The redirected globals (\<open>process.cwd\<close>, \<open>process.exit\<close>, \<open>process.argv\<close> and the console
  functions): either the host's own or the runner's replacements. \<open>runEval\<close> does not
  replace \<open>process.exit\<close>: code that calls it there ends the host process, with the
  replacements still in place.
\<close>

datatype globals = Original | Patched

record run_result =
  exitCode :: int
  written :: "(bool \<times> string) list"
  globals_after :: globals
  wait_ended_by :: "wait_end option"
  host_exited :: bool

definition runEval :: "runner_host \<Rightarrow> string \<Rightarrow> bool \<Rightarrow> run_result" where
  "runEval h code printResult =
     (let (s, v) = evaluate h code
      in case ending s of
           Completes \<Rightarrow>
             \<lparr>exitCode = 0,
              written = writes s @ (case v of
                                     Some text \<Rightarrow> if printResult then [(True, text @ [LF])] else []
                                   | None \<Rightarrow> []),
              globals_after = Original, wait_ended_by = None, host_exited = False\<rparr>
         | ExitCalled c \<Rightarrow>
             \<lparr>exitCode = c, written = writes s, globals_after = Patched,
              wait_ended_by = None, host_exited = True\<rparr>
         | Throws message \<Rightarrow>
             \<lparr>exitCode = 1, written = writes s @ [(False, message @ [LF])],
              globals_after = Original, wait_ended_by = None, host_exited = False\<rparr>)"

text \<open>
  \<open>runFile\<close>. The \<open>try\<close> block runs the file and then, when a token was passed, waits on the
  promise that resolves at once for a token already aborted and otherwise on the first of
  the immediate and the \<open>abort\<close> event; after the wait it returns 0. The \<open>finally\<close> block puts
  the host's globals back on every path.
\<close>

definition runFile ::
  "runner_host \<Rightarrow> string list \<Rightarrow> string \<Rightarrow> abort_signal option \<Rightarrow> wait_end \<Rightarrow> run_result" where
  "runFile h args cwd signal ev =
     (case args of
        [] \<Rightarrow> \<lparr>exitCode = 1, written = [(False, ''Usage: node <file.js>'' @ [LF])],
                globals_after = Original, wait_ended_by = None, host_exited = False\<rparr>
      | a0 # rest_args \<Rightarrow>
          if a0 = [] then
            \<lparr>exitCode = 1, written = [(False, ''Usage: node <file.js>'' @ [LF])],
             globals_after = Original, wait_ended_by = None, host_exited = False\<rparr>
          else if a0 = ''-e'' \<or> a0 = ''--eval'' then runEval h (join_with '' '' rest_args) False
          else if a0 = ''-p'' \<or> a0 = ''--print'' then runEval h (join_with '' '' rest_args) True
          else
            (case load h cwd a0 of
               None \<Rightarrow>
                 \<lparr>exitCode = 1,
                  written = [(False, ''Error: Cannot find module '' @ [SQ] @ a0 @ [SQ] @ [LF])],
                  globals_after = Original, wait_ended_by = None, host_exited = False\<rparr>
             | Some s \<Rightarrow>
                 (case ending s of
                    Completes \<Rightarrow>
                      \<lparr>exitCode = 0, written = writes s, globals_after = Original,
                       wait_ended_by =
                         (case signal of
                            None \<Rightarrow> None
                          | Some sg \<Rightarrow> if aborted sg then Some AbortFired else Some ev),
                       host_exited = False\<rparr>
                  | ExitCalled c \<Rightarrow>
                      \<lparr>exitCode = c, written = writes s, globals_after = Original,
                       wait_ended_by = None, host_exited = False\<rparr>
                  | Throws text \<Rightarrow>
                      \<lparr>exitCode = 1, written = writes s @ [(False, text @ [LF])],
                       globals_after = Original, wait_ended_by = None, host_exited = False\<rparr>)))"

text \<open>A host for the examples: \<open>server.js\<close> exists and returns after one line of output.\<close>

definition sample_runner :: runner_host where
  "sample_runner =
     \<lparr>load = (\<lambda>cwd file. if file = ''server.js''
                          then Some \<lparr>writes = [(True, ''listening'' @ [LF])], ending = Completes\<rparr>
                          else None),
      evaluate = (\<lambda>code. (\<lparr>writes = [], ending = Completes\<rparr>, None))\<rparr>"

section \<open>Resolver: \<open>npm-lite/resolver.js\<close>\<close>

text \<open>
  The registry documents, with the members the resolver reads. An object is the list of its
  members in enumeration order, each name once; a member that may be absent is an
  \<open>option\<close>.
\<close>

record vdata =
  v_dependencies :: "(string \<times> string) list option"
  v_tarball :: "string option"
  v_integrity :: "string option"
  v_shasum :: "string option"
  v_bin :: "json option"

record packument =
  p_versions :: "(string \<times> vdata) list option"
  p_dist_tags :: "(string \<times> string) list option"

record resolved_package =
  r_name :: string
  r_version :: string
  r_tarball :: "string option"
  r_integrity :: string
  r_dependencies :: "(string \<times> string) list"
  r_bin :: "json option"

record package_json =
  dependencies :: "(string \<times> string) list option"
  devDependencies :: "(string \<times> string) list option"

text \<open>
  The state the resolver works on: the module-level \<open>packumentCache\<close>, the maps \<open>resolved\<close>
  and \<open>resolving\<close> of the running call, the names \<open>registry.fetchPackument\<close> was called with,
  and the text written through \<open>emit\<close> (\<open>True\<close> for stdout).
\<close>

record rstate =
  packumentCache :: "(string \<times> packument) list"
  resolved :: "(string \<times> resolved_package) list"
  resolving :: "string list"
  fetched :: "string list"
  emits :: "(bool \<times> string) list"

text \<open>\<open>Map.prototype.set\<close> on a map kept as a list of entries in insertion order.\<close>

fun map_set :: "('k \<times> 'v) list \<Rightarrow> 'k \<Rightarrow> 'v \<Rightarrow> ('k \<times> 'v) list" where
  "map_set [] k v = [(k, v)]"
| "map_set ((k', v') # es) k v = (if k' = k then (k, v) # es else (k', v') # map_set es k v)"

text \<open>\<open>if (emit) emit.stderr(text)\<close> and \<open>if (emit) emit.stdout(text)\<close>\<close>

definition warn :: "bool \<Rightarrow> string \<Rightarrow> rstate \<Rightarrow> rstate" where
  "warn emit text st = (if emit then st\<lparr>emits := emits st @ [(False, text)]\<rparr> else st)"

definition say :: "bool \<Rightarrow> string \<Rightarrow> rstate \<Rightarrow> rstate" where
  "say emit text st = (if emit then st\<lparr>emits := emits st @ [(True, text)]\<rparr> else st)"

text \<open>\<open>a || b || ''\<close> on strings that may be absent.\<close>

definition first_truthy :: "string option \<Rightarrow> string option \<Rightarrow> string" where
  "first_truthy a b =
     (if truthy a then the a else if truthy b then the b else [])"

text \<open>
  \<open>resolveDep\<close> and the loop over the dependencies of the version it picked. \<open>fetch\<close> is
  \<open>registry.fetchPackument\<close>: the packument, or the message of the error it rejects with.
\<close>

function resolveDep ::
    "(string \<Rightarrow> string + packument) \<Rightarrow> bool \<Rightarrow> string \<Rightarrow> string \<Rightarrow> nat \<Rightarrow> rstate \<Rightarrow> rstate"
  and resolveSubs ::
    "(string \<Rightarrow> string + packument) \<Rightarrow> bool \<Rightarrow> (string \<times> string) list \<Rightarrow> nat \<Rightarrow> rstate \<Rightarrow> rstate"
  where
  "resolveDep fetch emit name rng depth st =
     (if depth > 50 then st
      else
        (case map_of (resolved st) name of
           Some existing \<Rightarrow>
             if satisfies (r_version existing) rng then st
             else warn emit ([LF] @ ''warn: '' @ name @ ''@'' @ rng @ '' conflicts with '' @ name
                             @ ''@'' @ r_version existing @ [LF]) st
         | None \<Rightarrow>
             (let key = name @ ''@'' @ rng
              in if key \<in> set (resolving st) then st
                 else
                   (let st1 = st\<lparr>resolving := resolving st @ [key]\<rparr>;
                        st2 =
                          (case (case map_of (packumentCache st1) name of
                                   Some p \<Rightarrow> (Inr p, st1)
                                 | None \<Rightarrow>
                                     (case fetch name of
                                        Inl message \<Rightarrow> (Inl message, st1\<lparr>fetched := fetched st1 @ [name]\<rparr>)
                                      | Inr p \<Rightarrow>
                                          (Inr p,
                                           st1\<lparr>fetched := fetched st1 @ [name],
                                               packumentCache := map_set (packumentCache st1) name p\<rparr>)))
                           of
                             (Inl message, st') \<Rightarrow>
                               warn emit ([LF] @ ''warn: Failed to resolve '' @ name @ ''@'' @ rng
                                          @ '': '' @ message @ [LF]) st'
                           | (Inr packument, st') \<Rightarrow>
                               (let vs = (case p_versions packument of None \<Rightarrow> [] | Some m \<Rightarrow> m);
                                    versions = map fst vs
                                in if versions = [] then
                                     warn emit ([LF] @ ''warn: '' @ name @ '' has no versions'' @ [LF]) st'
                                   else
                                     (let tag = (case p_dist_tags packument of
                                                   None \<Rightarrow> None | Some ts \<Rightarrow> map_of ts rng);
                                          effectiveRange = (if truthy tag then the tag else rng)
                                      in case maxSatisfying versions effectiveRange of
                                           None \<Rightarrow>
                                             warn emit ([LF] @ ''warn: No version of '' @ name
                                                        @ '' satisfies '' @ rng @ [LF]) st'
                                         | Some bestVersion \<Rightarrow>
                                             (let vData = the (map_of vs bestVersion);
                                                  deps = (case v_dependencies vData of
                                                            None \<Rightarrow> [] | Some d \<Rightarrow> d);
                                                  st3 = st'\<lparr>resolved :=
                                                          map_set (resolved st') name
                                                            \<lparr>r_name = name, r_version = bestVersion,
                                                             r_tarball = v_tarball vData,
                                                             r_integrity =
                                                               first_truthy (v_integrity vData) (v_shasum vData),
                                                             r_dependencies = deps,
                                                             r_bin = (if js_truthy (v_bin vData)
                                                                      then v_bin vData else Some JNull)\<rparr>\<rparr>
                                              in resolveSubs fetch emit deps (depth + 1) st3))))
                    in st2\<lparr>resolving := removeAll key (resolving st2)\<rparr>))))"
| "resolveSubs fetch emit [] depth st = st"
| "resolveSubs fetch emit ((sub, subRange) # more_deps) depth st =
     resolveSubs fetch emit more_deps depth (resolveDep fetch emit sub subRange depth st)"
  by pat_completeness auto
termination
  by (relation "inv_image (less_than <*lex*> less_than)
        (\<lambda>x. case x of
            Inl (fetch, emit, name, rng, depth, st) \<Rightarrow> (2 * (51 - depth), 0)
          | Inr (fetch, emit, deps, depth, st) \<Rightarrow> (2 * (51 - depth) + 1, length deps))")
     auto

declare resolveDep.simps [simp del]

text \<open>\<open>{ ...a }\<close> followed by \<open>Object.assign(deps, b)\<close>: the members of \<open>a\<close>, then those of \<open>b\<close>.\<close>

definition obj_assign :: "(string \<times> string) list \<Rightarrow> (string \<times> string) list \<Rightarrow> (string \<times> string) list" where
  "obj_assign a b = foldl (\<lambda>acc (k, v). map_set acc k v) a b"

text \<open>The loop of \<open>resolve\<close> over the dependencies, with its progress line.\<close>

fun resolve_loop ::
  "(string \<Rightarrow> string + packument) \<Rightarrow> bool \<Rightarrow> (string \<times> string) list \<Rightarrow> nat \<Rightarrow> nat \<Rightarrow> rstate \<Rightarrow> rstate"
  where
  "resolve_loop fetch emit [] cnt tot st = st"
| "resolve_loop fetch emit ((name, rng) # ds) cnt tot st =
     resolve_loop fetch emit ds (cnt + 1) tot
       (say emit ([CHR 0x0D] @ ''Resolving... '' @ dec_nat (cnt + 1) @ ''/'' @ dec_nat tot)
          (resolveDep fetch emit name rng 0 st))"

text \<open>
  \<open>resolve\<close>: \<open>cache\<close> is the module-level \<open>packumentCache\<close> as the call finds it; the result
  holds the map \<open>resolved\<close> it returns and the cache as the call leaves it.
\<close>

definition resolve ::
  "(string \<Rightarrow> string + packument) \<Rightarrow> package_json \<Rightarrow> bool \<Rightarrow> bool \<Rightarrow> (string \<times> packument) list \<Rightarrow> rstate" where
  "resolve fetch packageJson production emit cache =
     (let deps0 = foldl (\<lambda>acc (k, v). map_set acc k v) []
                    (case dependencies packageJson of None \<Rightarrow> [] | Some d \<Rightarrow> d);
          deps = (if \<not> production
                  then obj_assign deps0 (case devDependencies packageJson of None \<Rightarrow> [] | Some d \<Rightarrow> d)
                  else deps0);
          st = resolve_loop fetch emit deps 0 (length deps)
                 \<lparr>packumentCache = cache, resolved = [], resolving = [], fetched = [], emits = []\<rparr>
      in say emit [LF] st)"

text \<open>\<open>clearCache\<close>: exported by the resolver; nothing in the repository calls it.\<close>

definition clearCache :: "(string \<times> packument) list \<Rightarrow> (string \<times> packument) list" where
  "clearCache cache = []"

text \<open>A registry for the examples: the package \<open>a\<close> with the single version \<open>1.0.0\<close>.\<close>

definition sample_packument :: packument where
  "sample_packument =
     \<lparr>p_versions = Some [(''1.0.0'', \<lparr>v_dependencies = None, v_tarball = Some ''https://r/a.tgz'',
                                        v_integrity = Some ''sha512-x'', v_shasum = None,
                                        v_bin = None\<rparr>)],
      p_dist_tags = Some [(''latest'', ''1.0.0'')]\<rparr>"

definition sample_registry :: "string \<Rightarrow> string + packument" where
  "sample_registry name =
     (if name = ''a'' then Inr sample_packument else Inl (''Package not found: '' @ name))"

definition sample_project :: package_json where
  "sample_project = \<lparr>dependencies = Some [(''a'', ''^1.0.0'')], devDependencies = None\<rparr>"

section \<open>Properties of the matcher and of semver\<close>

lemma star_iter_Suc_mem:
  "s' \<in> set (star_iter f (Suc n) s) \<longleftrightarrow>
     s' = s \<or> (\<exists>s1 \<in> set (f s). length (rest s1) < length (rest s) \<and> s' \<in> set (star_iter f n s1))"
  by auto

lemma cls_mem:
  "s1 \<in> set (rmatches (Cls p) s) \<longleftrightarrow>
     (\<exists>c cs. rest s = c # cs \<and> p c \<and> s1 = s\<lparr>prev := Some c, rest := cs\<rparr>)"
  by (cases "rest s") auto

lemma seq_mem:
  "s' \<in> set (rmatches (Seq a b) s) \<longleftrightarrow> (\<exists>s1 \<in> set (rmatches a s). s' \<in> set (rmatches b s1))"
  by auto

lemma grp_mem:
  "s' \<in> set (rmatches (Grp n a) s) \<longleftrightarrow>
     (\<exists>s2 \<in> set (rmatches a s).
        s' = s2\<lparr>caps := (n, take (length (rest s) - length (rest s2)) (rest s)) # caps s2\<rparr>)"
  by auto

lemma star_cls_states:
  "s' \<in> set (star_iter (rmatches (Cls p)) n s) \<Longrightarrow>
     caps s' = caps s \<and> (\<exists>t. rest s = t @ rest s' \<and> list_all p t)"
proof (induction n arbitrary: s)
  case 0
  then show ?case by simp
next
  case (Suc n)
  from Suc.prems[unfolded star_iter_Suc_mem]
  consider "s' = s"
    | s1 where "s1 \<in> set (rmatches (Cls p) s)" "s' \<in> set (star_iter (rmatches (Cls p)) n s1)"
    by blast
  then consider "s' = s"
    | c cs where "rest s = c # cs" "p c"
        "s' \<in> set (star_iter (rmatches (Cls p)) n (s\<lparr>prev := Some c, rest := cs\<rparr>))"
    unfolding cls_mem by blast
  then show ?case
  proof cases
    case 1
    then show ?thesis by simp
  next
    case 2
    from Suc.IH[OF 2(3)] obtain t where "caps s' = caps s" "cs = t @ rest s'" "list_all p t"
      by auto
    with 2 show ?thesis by (intro conjI exI[of _ "c # t"]) auto
  qed
qed

lemma grp_plus_cls_states:
  assumes "s' \<in> set (rmatches (Grp n (Plus (Cls p))) s)"
  shows "\<exists>t. t \<noteq> [] \<and> list_all p t \<and> caps s' = (n, t) # caps s"
proof -
  from assms[unfolded grp_mem] obtain s2 where
        s2: "s2 \<in> set (rmatches (Plus (Cls p)) s)"
    and s': "s' = s2\<lparr>caps := (n, take (length (rest s) - length (rest s2)) (rest s)) # caps s2\<rparr>"
    by blast
  from s2[unfolded Plus_def seq_mem] obtain s1 where
    "s1 \<in> set (rmatches (Cls p) s)" "s2 \<in> set (rmatches (Star (Cls p)) s1)"
    by blast
  then obtain c cs where
        r: "rest s = c # cs" and pc: "p c"
    and m: "s2 \<in> set (rmatches (Star (Cls p)) (s\<lparr>prev := Some c, rest := cs\<rparr>))"
    unfolding cls_mem by blast
  from m have "s2 \<in> set (star_iter (rmatches (Cls p)) (length cs) (s\<lparr>prev := Some c, rest := cs\<rparr>))"
    by (simp del: rmatches.simps(1) add: rmatches.simps(5))
  from star_cls_states[OF this] obtain t where t: "caps s2 = caps s" "cs = t @ rest s2" "list_all p t"
    by auto
  have "take (length (rest s) - length (rest s2)) (rest s) = c # t"
    using r t by simp
  with s' t pc show ?thesis by (intro exI[of _ "c # t"]) simp
qed

lemma chr_states: "s' \<in> set (rmatches (Chr c) s) \<Longrightarrow> caps s' = caps s"
  by (auto simp: Chr_def split: list.splits if_splits)

lemma search_from_mem:
  "search_from r p s = Some (pre, mt, m) \<Longrightarrow> \<exists>st. caps st = [] \<and> m \<in> set (rmatches r st)"
proof (induction s arbitrary: p pre)
  case Nil
  then show ?case
    by (auto split: list.splits intro!: exI[of _ "\<lparr>prev = p, rest = [], caps = []\<rparr>"])
next
  case (Cons c cs)
  show ?case
  proof (cases "rmatches r \<lparr>prev = p, rest = c # cs, caps = []\<rparr>")
    case Nil
    with Cons.prems obtain pre' where "search_from r (Some c) cs = Some (pre', mt, m)"
      by auto
    from Cons.IH[OF this] show ?thesis .
  next
    case (Cons m' ms)
    with Cons.prems have "m = m'" by simp
    with Cons show ?thesis
      by (intro exI[of _ "\<lparr>prev = p, rest = c # cs, caps = []\<rparr>"]) simp
  qed
qed

lemma opt_grp_states:
  assumes "s' \<in> set (rmatches (Opt (Seq (Chr c) (Grp n (Plus (Cls p))))) s)"
  shows "caps s' = caps s \<or> (\<exists>t. t \<noteq> [] \<and> caps s' = (n, t) # caps s)"
proof -
  from assms have "s' = s \<or> s' \<in> set (rmatches (Seq (Chr c) (Grp n (Plus (Cls p)))) s)"
    by (auto simp: Opt_def)
  then show ?thesis
  proof
    assume "s' = s" then show ?thesis by simp
  next
    assume "s' \<in> set (rmatches (Seq (Chr c) (Grp n (Plus (Cls p)))) s)"
    then obtain s1 where s1: "s1 \<in> set (rmatches (Chr c) s)"
      and s2: "s' \<in> set (rmatches (Grp n (Plus (Cls p))) s1)"
      unfolding seq_mem by blast
    from chr_states[OF s1] grp_plus_cls_states[OF s2] show ?thesis by auto
  qed
qed

lemma re_version_caps:
  assumes "m \<in> set (rmatches re_version s)" and "caps s = []"
  shows "\<exists>t1 t2 t3. cap m 1 = Some t1 \<and> cap m 2 = Some t2 \<and> cap m 3 = Some t3 \<and>
           t1 \<noteq> [] \<and> list_all is_digit t1 \<and> t2 \<noteq> [] \<and> list_all is_digit t2 \<and>
           t3 \<noteq> [] \<and> list_all is_digit t3"
proof -
  from assms(1) obtain s0 s1 s2 s3 s4 s5 s6 s7 s8 where
    c: "s0 \<in> set (rmatches Bol s)"
       "s1 \<in> set (rmatches (Grp 1 (Plus Digit)) s0)"
       "s2 \<in> set (rmatches (Chr CHR ''.'') s1)"
       "s3 \<in> set (rmatches (Grp 2 (Plus Digit)) s2)"
       "s4 \<in> set (rmatches (Chr CHR ''.'') s3)"
       "s5 \<in> set (rmatches (Grp 3 (Plus Digit)) s4)"
       "s6 \<in> set (rmatches (Opt (Seq (Chr CHR ''-'') (Grp 4 (Plus (Cls is_ident_char))))) s5)"
       "s7 \<in> set (rmatches (Opt (Seq (Chr CHR ''+'') (Grp 5 (Plus (Cls is_ident_char))))) s6)"
       "s8 \<in> set (rmatches Eol s7)" "m \<in> set (rmatches Eps s8)"
    unfolding re_version_def Seqs_def foldr.simps o_apply id_apply seq_mem by blast
  have c0: "caps s0 = []" using c(1) assms(2) by (auto split: if_splits)
  from grp_plus_cls_states[OF c(2)[unfolded Digit_def]] c0
  obtain t1 where t1: "t1 \<noteq> []" "list_all is_digit t1" "caps s1 = [(1, t1)]" by auto
  from chr_states[OF c(3)] t1 have c2: "caps s2 = [(1, t1)]" by simp
  from grp_plus_cls_states[OF c(4)[unfolded Digit_def]] c2
  obtain t2 where t2: "t2 \<noteq> []" "list_all is_digit t2" "caps s3 = [(2, t2), (1, t1)]" by auto
  from chr_states[OF c(5)] t2 have c4: "caps s4 = [(2, t2), (1, t1)]" by simp
  from grp_plus_cls_states[OF c(6)[unfolded Digit_def]] c4
  obtain t3 where t3: "t3 \<noteq> []" "list_all is_digit t3" "caps s5 = [(3, t3), (2, t2), (1, t1)]"
    by auto
  from opt_grp_states[OF c(7)] t3
  have c6: "caps s6 = [(3, t3), (2, t2), (1, t1)] \<or>
            (\<exists>t. t \<noteq> [] \<and> caps s6 = [(4, t), (3, t3), (2, t2), (1, t1)])" by auto
  from opt_grp_states[OF c(8)]
  have c7: "caps s7 = caps s6 \<or> (\<exists>t. t \<noteq> [] \<and> caps s7 = (5, t) # caps s6)" .
  have cm: "caps m = caps s7" using c(9,10) by (auto split: if_splits)
  from c6 c7 cm t1 t2 t3 show ?thesis
    by (auto simp: cap_def)
qed

lemma parseInt10_digits:
  assumes "t \<noteq> []" "list_all is_digit t"
  shows "\<exists>n. parseInt10 t = Some n"
proof -
  from assms obtain c cs where t: "t = c # cs" "is_digit c" by (cases t) auto
  then have nsp: "\<not> is_space c" "c \<noteq> CHR ''-''" "c \<noteq> CHR ''+''"
    by (auto simp: is_digit_def is_space_def)
  have "takeWhile is_digit t = t" using assms(2) by (simp add: list_all_iff)
  with t nsp show ?thesis
    by (simp add: parseInt10_def trimStart_def Let_def)
qed

lemma parse_numeric:
  assumes "parse s = Some v"
  shows "major v \<noteq> None \<and> minor v \<noteq> None \<and> patch v \<noteq> None"
proof -
  from assms obtain m cl where m: "rmatch re_version cl = Some m"
    and v: "v = \<lparr>major = parseInt10 (the (cap m 1)), minor = parseInt10 (the (cap m 2)),
                 patch = parseInt10 (the (cap m 3)),
                 prerelease = (case cap m 4 of Some p \<Rightarrow> split_str ''.'' p | None \<Rightarrow> [])\<rparr>"
    by (auto simp: parse_def Let_def split: option.splits)
  from m obtain pre mt where "search_from re_version None cl = Some (pre, mt, m)"
    by (auto simp: rmatch_def rsearch_def)
  from search_from_mem[OF this] obtain st where "caps st = []" "m \<in> set (rmatches re_version st)"
    by blast
  from re_version_caps[OF this(2,1)] parseInt10_digits v show ?thesis
    by (metis option.distinct(1) option.sel version.select_convs(1-3))
qed

lemma set_insort_cmp: "set (insort_cmp cmp x ys) = insert x (set ys)"
  by (induction ys) auto

lemma set_sort_cmp: "set (sort_cmp cmp xs) = set xs"
  by (induction xs) (auto simp: sort_cmp_def set_insort_cmp)

lemma sort_cmp_Cons: "sort_cmp cmp (x # xs) = insort_cmp cmp x (sort_cmp cmp xs)"
  by (simp add: sort_cmp_def)

lemma hd_insort_cmp:
  "insort_cmp cmp x ys = m # ms \<Longrightarrow>
     (ys = [] \<and> m = x) \<or> (\<exists>h t. ys = h # t \<and> (if cmp x h \<le> 0 then m = x else m = h))"
  by (cases ys) (auto split: if_splits)

text \<open>The head of the sorted list goes before every element, for a total preorder.\<close>

lemma sort_cmp_head:
  assumes refl: "\<And>x. x \<in> set xs \<Longrightarrow> cmp x x \<le> 0"
      and trans: "\<And>x y z. x \<in> set xs \<Longrightarrow> y \<in> set xs \<Longrightarrow> z \<in> set xs \<Longrightarrow>
                    cmp x y \<le> 0 \<Longrightarrow> cmp y z \<le> 0 \<Longrightarrow> cmp x z \<le> 0"
      and total: "\<And>x y. x \<in> set xs \<Longrightarrow> y \<in> set xs \<Longrightarrow> cmp x y \<le> 0 \<or> cmp y x \<le> 0"
      and srt: "sort_cmp cmp xs = m # ms"
  shows "m \<in> set xs \<and> (\<forall>t \<in> set xs. cmp m t \<le> 0)"
  using assms
proof (induction xs arbitrary: m ms)
  case Nil
  then show ?case by (simp add: sort_cmp_def)
next
  case (Cons x xs)
  from Cons.prems(4) have ins: "insort_cmp cmp x (sort_cmp cmp xs) = m # ms"
    by (simp add: sort_cmp_Cons)
  show ?case
  proof (cases "sort_cmp cmp xs")
    case Nil
    then have "set xs = {}" using set_sort_cmp[of cmp xs] by simp
    with ins Nil Cons.prems(1) show ?thesis by simp
  next
    case (Cons h t)
    have IH: "h \<in> set xs \<and> (\<forall>t \<in> set xs. cmp h t \<le> 0)"
    proof (rule Cons.IH[OF _ _ _ Cons])
      show "\<And>x. x \<in> set xs \<Longrightarrow> cmp x x \<le> 0" using Cons.prems(1) by simp
      show "\<And>x y z. x \<in> set xs \<Longrightarrow> y \<in> set xs \<Longrightarrow> z \<in> set xs \<Longrightarrow>
                    cmp x y \<le> 0 \<Longrightarrow> cmp y z \<le> 0 \<Longrightarrow> cmp x z \<le> 0"
        using Cons.prems(2) by (meson list.set_intros(2))
      show "\<And>x y. x \<in> set xs \<Longrightarrow> y \<in> set xs \<Longrightarrow> cmp x y \<le> 0 \<or> cmp y x \<le> 0"
        using Cons.prems(3) by simp
    qed
    show ?thesis
    proof (cases "cmp x h \<le> 0")
      case True
      with ins Cons have m: "m = x" by simp
      have "\<forall>t \<in> set xs. cmp x t \<le> 0"
        using IH True Cons.prems(2)[of x h] by auto
      with m Cons.prems(1)[of x] show ?thesis by simp
    next
      case False
      with ins Cons have m: "m = h" by simp
      from False Cons.prems(3)[of x h] IH have "cmp h x \<le> 0" by auto
      with m IH show ?thesis by simp
    qed
  qed
qed

lemma compare_release_refl: "release a \<Longrightarrow> compare a a = 0"
  by (auto simp: release_def compare_def num_neq_def num_gt_def)

lemma compare_release_total: "release a \<Longrightarrow> release b \<Longrightarrow> compare a b \<le> 0 \<or> compare b a \<le> 0"
  by (auto simp: release_def compare_def num_neq_def num_gt_def)

lemma compare_release_trans:
  "release a \<Longrightarrow> release b \<Longrightarrow> release c \<Longrightarrow> compare a b \<le> 0 \<Longrightarrow> compare b c \<le> 0 \<Longrightarrow> compare a c \<le> 0"
  by (auto simp: release_def compare_def num_neq_def num_gt_def split: if_splits)

lemma set_map_filter: "set (List.map_filter f xs) = {y. \<exists>x \<in> set xs. f x = Some y}"
  by (induction xs) (auto split: option.splits)

lemma matching_mem:
  "(s, v) \<in> set (matching versions r) \<longleftrightarrow>
     s \<in> set versions \<and> parse s = Some v \<and> prerelease v = [] \<and> satisfies s r"
  by (auto simp: matching_def set_map_filter)

lemma matching_release: "(s, v) \<in> set (matching versions r) \<Longrightarrow> release v"
  using parse_numeric by (auto simp: matching_mem release_def)

lemma maxSatisfying_Some:
  assumes "maxSatisfying versions r = Some s"
  shows "\<exists>v. (s, v) \<in> set (matching versions r) \<and>
             (\<forall>(t, w) \<in> set (matching versions r). compare w v \<le> 0)"
proof -
  let ?cmp = "\<lambda>a b :: string \<times> version. compare (snd b) (snd a)"
  from assms obtain v ms where srt: "sort_cmp ?cmp (matching versions r) = (s, v) # ms"
    by (auto simp: maxSatisfying_def split: list.splits)
  have rel: "\<And>x. x \<in> set (matching versions r) \<Longrightarrow> release (snd x)"
    using matching_release by (metis prod.collapse)
  have "(s, v) \<in> set (matching versions r) \<and> (\<forall>t \<in> set (matching versions r). ?cmp (s, v) t \<le> 0)"
  proof (rule sort_cmp_head[OF _ _ _ srt])
    fix x assume "x \<in> set (matching versions r)"
    then show "?cmp x x \<le> 0" using compare_release_refl rel by simp
  next
    fix x y z
    assume "x \<in> set (matching versions r)" "y \<in> set (matching versions r)"
           "z \<in> set (matching versions r)" "?cmp x y \<le> 0" "?cmp y z \<le> 0"
    then show "?cmp x z \<le> 0" using compare_release_trans[of "snd z" "snd y" "snd x"] rel by blast
  next
    fix x y
    assume "x \<in> set (matching versions r)" "y \<in> set (matching versions r)"
    then show "?cmp x y \<le> 0 \<or> ?cmp y x \<le> 0"
      using compare_release_total[of "snd y" "snd x"] rel by blast
  qed
  then show ?thesis by (intro exI[of _ v]) auto
qed

lemma sort_cmp_Nil_iff: "sort_cmp cmp xs = [] \<longleftrightarrow> xs = []"
  using set_sort_cmp[of cmp xs] by (metis set_empty)

lemma maxSatisfying_None: "maxSatisfying versions r = None \<longleftrightarrow> matching versions r = []"
proof (cases "sort_cmp (\<lambda>a b. compare (snd b) (snd a)) (matching versions r)")
  case Nil
  then have m: "matching versions r = []" by (simp add: sort_cmp_Nil_iff)
  show ?thesis unfolding maxSatisfying_def Nil using m by simp
next
  case (Cons m ms)
  then have "matching versions r \<noteq> []" by (metis sort_cmp_Nil_iff list.distinct(1))
  with Cons show ?thesis by (simp add: maxSatisfying_def)
qed

text \<open>
  Claim C4. \<open>maxSatisfying\<close> drops the versions with a prerelease before it compares: what it
  returns is one of the given versions, has no prerelease, satisfies the range and is not
  below any other such version of the list; it returns nothing only when no prerelease-free
  version of the list satisfies the range. The three examples of the specification hold:
  \<open>maxSatisfying(["1.0.0","1.2.3","2.0.0-rc.1","2.0.0"], "^1.0.0") = "1.2.3"\<close>,
  \<open>satisfies("1.2.3", "~1.2.0")\<close> is true and \<open>satisfies("2.0.0-rc.1", "^2.0.0")\<close> is false.
\<close>

theorem maxSatisfying_highest_release:
  "(maxSatisfying versions r = Some s \<longrightarrow>
      s \<in> set versions \<and> satisfies s r \<and>
      (\<exists>v. parse s = Some v \<and> prerelease v = [] \<and>
           (\<forall>t \<in> set versions. \<forall>w. parse t = Some w \<and> prerelease w = [] \<and> satisfies t r
                \<longrightarrow> compare w v \<le> 0)))
   \<and> (maxSatisfying versions r = None \<longrightarrow>
        (\<forall>t \<in> set versions. \<forall>w. parse t = Some w \<and> satisfies t r \<longrightarrow> prerelease w \<noteq> []))
   \<and> maxSatisfying [''1.0.0'', ''1.2.3'', ''2.0.0-rc.1'', ''2.0.0''] ''^1.0.0'' = Some ''1.2.3''
   \<and> satisfies ''1.2.3'' ''~1.2.0''
   \<and> \<not> satisfies ''2.0.0-rc.1'' ''^2.0.0''"
proof (intro conjI impI)
  assume a: "maxSatisfying versions r = Some s"
  from maxSatisfying_Some[OF a] obtain v where
    v: "(s, v) \<in> set (matching versions r)"
       "\<forall>(t, w) \<in> set (matching versions r). compare w v \<le> 0" by blast
  from v(1) show "s \<in> set versions" "satisfies s r" by (simp_all add: matching_mem)
  from v show "\<exists>v. parse s = Some v \<and> prerelease v = [] \<and>
           (\<forall>t \<in> set versions. \<forall>w. parse t = Some w \<and> prerelease w = [] \<and> satisfies t r
                \<longrightarrow> compare w v \<le> 0)"
    by (intro exI[of _ v]) (auto simp: matching_mem)
next
  assume "maxSatisfying versions r = None"
  then have "matching versions r = []" by (simp add: maxSatisfying_None)
  then have "\<And>t w. (t, w) \<notin> set (matching versions r)" by simp
  then show "\<forall>t \<in> set versions. \<forall>w. parse t = Some w \<and> satisfies t r \<longrightarrow> prerelease w \<noteq> []"
    unfolding matching_mem by blast
next
  show "maxSatisfying [''1.0.0'', ''1.2.3'', ''2.0.0-rc.1'', ''2.0.0''] ''^1.0.0'' = Some ''1.2.3''"
    by code_simp
  show "satisfies ''1.2.3'' ''~1.2.0''" by code_simp
  show "\<not> satisfies ''2.0.0-rc.1'' ''^2.0.0''" by code_simp
qed

theorem maxSatisfying_highest_release_witness:
  "maxSatisfying [''1.0.0'', ''1.2.3'', ''2.0.0-rc.1'', ''2.0.0''] ''^1.0.0'' = Some ''1.2.3''
   \<and> ''1.0.0'' \<in> set [''1.0.0'', ''1.2.3'', ''2.0.0-rc.1'', ''2.0.0'']
   \<and> parse ''1.0.0'' = Some (mkver (Some 1) (Some 0) (Some 0))
   \<and> prerelease (mkver (Some 1) (Some 0) (Some 0)) = []
   \<and> satisfies ''1.0.0'' ''^1.0.0''
   \<and> (\<exists>v. parse ''1.2.3'' = Some v \<and> compare (mkver (Some 1) (Some 0) (Some 0)) v \<le> 0)
   \<and> maxSatisfying [''1.0.0-rc.1''] ''>=1.0.0-rc.0'' = None
   \<and> ''1.0.0-rc.1'' \<in> set [''1.0.0-rc.1'']
   \<and> parse ''1.0.0-rc.1'' = Some \<lparr>major = Some 1, minor = Some 0, patch = Some 0, prerelease = [''rc'', ''1'']\<rparr>
   \<and> satisfies ''1.0.0-rc.1'' ''>=1.0.0-rc.0''
   \<and> prerelease \<lparr>major = Some 1, minor = Some 0, patch = Some 0, prerelease = [''rc'', ''1'']\<rparr> \<noteq> []"
proof -
  have m: "maxSatisfying [''1.0.0'', ''1.2.3'', ''2.0.0-rc.1'', ''2.0.0''] ''^1.0.0'' = Some ''1.2.3''"
    by code_simp
  have p: "parse ''1.0.0'' = Some (mkver (Some 1) (Some 0) (Some 0))" by code_simp
  have q: "prerelease (mkver (Some 1) (Some 0) (Some 0)) = []" by (simp add: mkver_def)
  have s: "satisfies ''1.0.0'' ''^1.0.0''" by code_simp
  have n: "maxSatisfying [''1.0.0-rc.1''] ''>=1.0.0-rc.0'' = None" by code_simp
  have p': "parse ''1.0.0-rc.1'' =
      Some \<lparr>major = Some 1, minor = Some 0, patch = Some 0, prerelease = [''rc'', ''1'']\<rparr>"
    by code_simp
  have s': "satisfies ''1.0.0-rc.1'' ''>=1.0.0-rc.0''" by code_simp
  from maxSatisfying_highest_release
         [of "[''1.0.0'', ''1.2.3'', ''2.0.0-rc.1'', ''2.0.0'']" "''^1.0.0''" "''1.2.3''"] m p q s
  have a: "\<exists>v. parse ''1.2.3'' = Some v \<and> compare (mkver (Some 1) (Some 0) (Some 0)) v \<le> 0"
    by auto
  from maxSatisfying_highest_release [of "[''1.0.0-rc.1'']" "''>=1.0.0-rc.0''"] n p' s'
  have b: "prerelease \<lparr>major = Some 1, minor = Some 0, patch = Some 0, prerelease = [''rc'', ''1'']\<rparr> \<noteq> []"
    by auto
  from m p q s a n p' s' b show ?thesis by simp
qed

text \<open>
  Claim C3, as stated, fails: \<open>satisfies\<close> has no prerelease exclusion, so the prerelease
  \<open>1.5.0-rc.1\<close> satisfies \<open>^1.0.0\<close>, a range that mentions no prerelease; and \<open>maxSatisfying\<close>
  drops every prerelease whatever the range says, so \<open>1.0.0-rc.1\<close> is not eligible for
  \<open>>=1.0.0-rc.0\<close> although it satisfies that range.
\<close>

theorem prerelease_exclusion_counterexample:
  "parse ''1.5.0-rc.1'' =
     Some \<lparr>major = Some 1, minor = Some 5, patch = Some 0, prerelease = [''rc'', ''1'']\<rparr>
   \<and> satisfies ''1.5.0-rc.1'' ''^1.0.0''
   \<and> satisfies ''1.0.0-rc.1'' ''>=1.0.0-rc.0''
   \<and> maxSatisfying [''1.0.0-rc.1''] ''>=1.0.0-rc.0'' = None"
proof (intro conjI)
  show "parse ''1.5.0-rc.1'' =
     Some \<lparr>major = Some 1, minor = Some 5, patch = Some 0, prerelease = [''rc'', ''1'']\<rparr>"
    by code_simp
  show "satisfies ''1.5.0-rc.1'' ''^1.0.0''" by code_simp
  show "satisfies ''1.0.0-rc.1'' ''>=1.0.0-rc.0''" by code_simp
  show "maxSatisfying [''1.0.0-rc.1''] ''>=1.0.0-rc.0'' = None" by code_simp
qed

text \<open>
  Claim C3, amended. \<open>maxSatisfying\<close> never returns a version with a prerelease, for every
  range (also one that mentions a prerelease); \<open>satisfies\<close> excludes nothing: a version that
  parses, prerelease or not, satisfies a range exactly when it passes every comparator of one
  of the range's comparator sets under the precedence order of \<open>compare\<close>.
\<close>

theorem prerelease_handling:
  "(maxSatisfying versions r = Some s \<longrightarrow> (\<exists>v. parse s = Some v \<and> prerelease v = []))
   \<and> (parse s' = Some v' \<longrightarrow>
        satisfies s' r' = (\<exists>cset \<in> set (parseRange r'). \<forall>cm \<in> set cset. testComp v' cm))"
proof (intro conjI impI)
  assume "maxSatisfying versions r = Some s"
  from maxSatisfying_Some[OF this] show "\<exists>v. parse s = Some v \<and> prerelease v = []"
    by (auto simp: matching_mem)
next
  assume "parse s' = Some v'"
  then show "satisfies s' r' = (\<exists>cset \<in> set (parseRange r'). \<forall>cm \<in> set cset. testComp v' cm)"
    by (simp add: satisfies_def list_ex_iff list_all_iff)
qed

theorem prerelease_handling_witness:
  "maxSatisfying [''1.0.0-rc.1'', ''1.0.0''] ''>=1.0.0-rc.0'' = Some ''1.0.0''
   \<and> (\<exists>v. parse ''1.0.0'' = Some v \<and> prerelease v = [])
   \<and> parse ''1.5.0-rc.1'' =
       Some \<lparr>major = Some 1, minor = Some 5, patch = Some 0, prerelease = [''rc'', ''1'']\<rparr>
   \<and> satisfies ''1.5.0-rc.1'' ''^1.0.0''
   \<and> (\<exists>cset \<in> set (parseRange ''^1.0.0''). \<forall>cm \<in> set cset.
         testComp \<lparr>major = Some 1, minor = Some 5, patch = Some 0, prerelease = [''rc'', ''1'']\<rparr> cm)"
proof -
  have m: "maxSatisfying [''1.0.0-rc.1'', ''1.0.0''] ''>=1.0.0-rc.0'' = Some ''1.0.0''"
    by code_simp
  have p: "parse ''1.5.0-rc.1'' =
       Some \<lparr>major = Some 1, minor = Some 5, patch = Some 0, prerelease = [''rc'', ''1'']\<rparr>"
    by code_simp
  have s: "satisfies ''1.5.0-rc.1'' ''^1.0.0''" by code_simp
  from prerelease_handling
         [of "[''1.0.0-rc.1'', ''1.0.0'']" "''>=1.0.0-rc.0''" "''1.0.0''" "''1.5.0-rc.1''" _ "''^1.0.0''"]
       m p s
  show ?thesis by simp
qed

section \<open>Properties of the tar extractor\<close>



text \<open>
  Claim C2 is not met by the code. The check that the source marks as its guard against path
  traversal looks at the entry's name only: the target of a symbolic link entry is handed to
  the host unchecked, and later entries are written below the link. For the archive that
  holds the link \<open>package/x\<close> with target \<open>/etc\<close> and then the file \<open>package/x/passwd\<close>, the
  extractor makes the link \<open>/tmp/out/x\<close> to \<open>/etc\<close> and then writes the file at
  \<open>/tmp/out/x/passwd\<close>, a path that the host resolves through the link just made to
  \<open>/etc/passwd\<close>, outside the destination \<open>/tmp/out\<close>. The entry \<open>package/./.\<close> passes both
  checks as well (its relative path \<open>./.\<close> is not empty, not \<open>.\<close>, not \<open>./\<close> and holds no
  \<open>..\<close>): the joined path is the destination itself, so the extractor makes the directory
  \<open>/tmp\<close>, the parent of the destination, and writes a file at \<open>/tmp/out\<close>. An entry named
  \<open>package/../etc/passwd\<close> is refused, as the claim says.
\<close>

theorem extract_escapes_destination:
  "tar_extract Some
     (tar_header_link ''package/x'' ''00000000000'' CHR ''2'' ''/etc''
      @ tar_header ''package/x/passwd'' ''00000000002'' CHR ''0'' @ pad 512 ''hi'')
     ''/tmp/out''
     = Inr [Mkdir ''/tmp/out'', Symlink ''/etc'' ''/tmp/out/x'',
            Mkdir ''/tmp/out/x'', WriteFile ''/tmp/out/x/passwd'' ''hi'']
   \<and> tar_extract Some (tar_header ''package/./.'' ''00000000000'' CHR ''0'') ''/tmp/out''
     = Inr [Mkdir ''/tmp'', WriteFile ''/tmp/out'' []]
   \<and> tar_extract Some (tar_header ''package/../etc/passwd'' ''00000000000'' CHR ''0'') ''/tmp/out''
     = Inr []"
proof (intro conjI)
  show "tar_extract Some
     (tar_header_link ''package/x'' ''00000000000'' CHR ''2'' ''/etc''
      @ tar_header ''package/x/passwd'' ''00000000002'' CHR ''0'' @ pad 512 ''hi'')
     ''/tmp/out''
     = Inr [Mkdir ''/tmp/out'', Symlink ''/etc'' ''/tmp/out/x'',
            Mkdir ''/tmp/out/x'', WriteFile ''/tmp/out/x/passwd'' ''hi'']"
    by code_simp
  show "tar_extract Some (tar_header ''package/./.'' ''00000000000'' CHR ''0'') ''/tmp/out''
     = Inr [Mkdir ''/tmp'', WriteFile ''/tmp/out'' []]"
    by code_simp
  show "tar_extract Some (tar_header ''package/../etc/passwd'' ''00000000000'' CHR ''0'') ''/tmp/out''
     = Inr []"
    by code_simp
qed




section \<open>Properties of the source rewrites and of the entry selection\<close>

text \<open>
  Claim C7 is not met by the code. For the module \<open>export const X = 1;\<close> the rewrite returns
  \<open>const X = 1;\<close>, and for \<open>export function X() {}\<close> it returns \<open>function X() {}\<close>: the
  declaration is kept, the keyword \<open>export\<close> is dropped, and nothing is written to the export
  table (the output does not mention \<open>exports\<close>).
\<close>

theorem named_export_dropped:
  "transformModules ''export const X = 1;'' = ''const X = 1;''
   \<and> transformJSX ''export const X = 1;'' = Some ''const X = 1;''
   \<and> \<not> str_includes ''const X = 1;'' ''exports''
   \<and> transformModules ''export function X() {}'' = ''function X() {}''
   \<and> transformJSX ''export function X() {}'' = Some ''function X() {}''
   \<and> \<not> str_includes ''function X() {}'' ''exports''"
proof (intro conjI)
  show "transformModules ''export const X = 1;'' = ''const X = 1;''" by code_simp
  show "transformJSX ''export const X = 1;'' = Some ''const X = 1;''" by code_simp
  show "\<not> str_includes ''const X = 1;'' ''exports''" by code_simp
  show "transformModules ''export function X() {}'' = ''function X() {}''" by code_simp
  show "transformJSX ''export function X() {}'' = Some ''function X() {}''" by code_simp
  show "\<not> str_includes ''function X() {}'' ''exports''" by code_simp
qed

text \<open>
  Claim C8 is not met by the code. With the files \<open>/App.js\<close> and \<open>/index.ts\<close> no entry file is
  found (\<open>/index.ts\<close> is not among the names looked for) and the bundle renders \<open>/App.js\<close>;
  with \<open>/index.ts\<close> alone it is taken as the first file and rendered as the application
  component, not required as the entry module. \<open>/App.ts\<close> is not looked for either: with
  \<open>/a.js\<close> before it, \<open>/a.js\<close> is rendered.
\<close>

theorem index_ts_not_selected:
  "entryFile [''/App.js'', ''/index.ts''] = None
   \<and> entryScript [''/App.js'', ''/index.ts''] = render_app ''/App.js''
   \<and> entryFile [''/index.ts''] = None
   \<and> entryScript [''/index.ts''] = render_app ''/index.ts''
   \<and> entryScript [''/a.js'', ''/App.ts''] = render_app ''/a.js''
   \<and> entryScript [''/App.js'', ''/index.tsx''] = require_entry ''/index.tsx''"
proof (intro conjI)
  show "entryFile [''/App.js'', ''/index.ts''] = None" by code_simp
  show "entryScript [''/App.js'', ''/index.ts''] = render_app ''/App.js''" by code_simp
  show "entryFile [''/index.ts''] = None" by code_simp
  show "entryScript [''/index.ts''] = render_app ''/index.ts''" by code_simp
  show "entryScript [''/a.js'', ''/App.ts''] = render_app ''/a.js''" by code_simp
  show "entryScript [''/App.js'', ''/index.tsx''] = require_entry ''/index.tsx''" by code_simp
qed

text \<open>
  Claim C9 is not met by the code. A string prop is emitted between double quotes without
  any escaping (a text child goes through \<open>JSON.stringify\<close>): the prop of
  \<open><a b='"<c/>'/>\<close> holds a double quote, so in the output the text \<open><c/>\<close> stands outside
  every string literal, and a second run of the rewrite turns it into a \<open>createElement\<close>
  call. The rewrite of the module directives is not idempotent either:
  \<open>export function f(){}\<close> becomes \<open>function f(){}\<close> with no export written, and
  rewriting that again finds a function at the start of a line in a module that does not
  mention \<open>module.exports\<close> and appends \<open>module.exports = f;\<close>.
\<close>

theorem transformJSX_not_idempotent:
  "transformJSX (''<a b='' @ [SQ, DQ] @ ''<c/>'' @ [SQ] @ ''/>'')
       = Some ''React.createElement(\"a\", { b: \"\"<c/>\" })''
   \<and> transformJSX ''React.createElement(\"a\", { b: \"\"<c/>\" })''
       = Some ''React.createElement(\"a\", { b: \"\"React.createElement(\"c\", null)\" })''
   \<and> transformJSX ''export function f(){}'' = Some ''function f(){}''
   \<and> transformJSX ''function f(){}'' = Some (''function f(){}'' @ [LF] @ ''module.exports = f;'')"
proof (intro conjI)
  show "transformJSX (''<a b='' @ [SQ, DQ] @ ''<c/>'' @ [SQ] @ ''/>'')
       = Some ''React.createElement(\"a\", { b: \"\"<c/>\" })''" by code_simp
  show "transformJSX ''React.createElement(\"a\", { b: \"\"<c/>\" })''
       = Some ''React.createElement(\"a\", { b: \"\"React.createElement(\"c\", null)\" })''"
    by code_simp
  show "transformJSX ''export function f(){}'' = Some ''function f(){}''" by code_simp
  show "transformJSX ''function f(){}''
          = Some (''function f(){}'' @ [LF] @ ''module.exports = f;'')" by code_simp
qed

section \<open>Properties of the message loop\<close>

lemma frame_type_error [simp]: "frame_type (error_frame i m) = Some (JStr ''error'')"
  by (cases i) (simp_all add: frame_type_def error_frame_def mk_frame_def)

lemma frame_type_mk [simp]:
  "frame_type (mk_frame ((''id'', i) # (''type'', Some t) # others)) = Some t"
  by (cases i) (simp_all add: frame_type_def mk_frame_def)




section \<open>Properties of the script runner\<close>

text \<open>
  Claim C1, as stated, fails. \<open>server.js\<close> exists and its evaluation returns; the token is
  aborted while the runner waits on it (the \<open>abort\<close> listener ends the wait): \<open>runFile\<close>
  returns 0, not 130. It returns 0 as well when the token is already aborted at the wait.
\<close>

theorem runFile_abort_counterexample:
  "runFile sample_runner [''server.js''] ''/p'' (Some \<lparr>aborted = False\<rparr>) AbortFired
     = \<lparr>exitCode = 0, written = [(True, ''listening'' @ [LF])], globals_after = Original,
        wait_ended_by = Some AbortFired, host_exited = False\<rparr>
   \<and> exitCode (runFile sample_runner [''server.js''] ''/p'' (Some \<lparr>aborted = True\<rparr>) ImmediateFired)
       = 0"
proof (intro conjI)
  show "runFile sample_runner [''server.js''] ''/p'' (Some \<lparr>aborted = False\<rparr>) AbortFired
     = \<lparr>exitCode = 0, written = [(True, ''listening'' @ [LF])], globals_after = Original,
        wait_ended_by = Some AbortFired, host_exited = False\<rparr>"
    by code_simp
  show "exitCode (runFile sample_runner [''server.js''] ''/p'' (Some \<lparr>aborted = True\<rparr>) ImmediateFired)
       = 0"
    by code_simp
qed

text \<open>
  Claim C1, amended. For every invocation of \<open>runFile\<close> on an existing script file whose
  evaluation returns, with a cancellation token that is aborted while the runner is awaiting
  on it, \<open>runFile\<close> returns exit code 0, with the script's output and the host's globals
  restored: the abort only ends the wait. The exit code of \<open>runFile\<close> never depends on the
  token or on what ends the wait.
\<close>

theorem runFile_abort_returns_zero:
  "(fname \<noteq> [] \<and> fname \<notin> {''-e'', ''--eval'', ''-p'', ''--print''}
      \<and> load h cwd fname = Some s \<and> ending s = Completes \<longrightarrow>
        runFile h (fname # argv) cwd (Some sg) AbortFired
          = \<lparr>exitCode = 0, written = writes s, globals_after = Original,
             wait_ended_by = Some AbortFired, host_exited = False\<rparr>)
   \<and> exitCode (runFile h args cwd signal ev) = exitCode (runFile h args cwd None ImmediateFired)"
proof (intro conjI impI)
  assume "fname \<noteq> [] \<and> fname \<notin> {''-e'', ''--eval'', ''-p'', ''--print''}
      \<and> load h cwd fname = Some s \<and> ending s = Completes"
  then show "runFile h (fname # argv) cwd (Some sg) AbortFired
          = \<lparr>exitCode = 0, written = writes s, globals_after = Original,
             wait_ended_by = Some AbortFired, host_exited = False\<rparr>"
    by (simp add: runFile_def)
next
  show "exitCode (runFile h args cwd signal ev) = exitCode (runFile h args cwd None ImmediateFired)"
    by (simp add: runFile_def split: list.splits option.splits script_end.splits)
qed

theorem runFile_abort_returns_zero_witness:
  "''server.js'' \<noteq> [] \<and> ''server.js'' \<notin> {''-e'', ''--eval'', ''-p'', ''--print''}
   \<and> load sample_runner ''/p'' ''server.js''
       = Some \<lparr>writes = [(True, ''listening'' @ [LF])], ending = Completes\<rparr>
   \<and> ending \<lparr>writes = [(True, ''listening'' @ [LF])], ending = Completes\<rparr> = Completes
   \<and> runFile sample_runner [''server.js'', ''--port''] ''/p'' (Some \<lparr>aborted = False\<rparr>) AbortFired
       = \<lparr>exitCode = 0, written = writes \<lparr>writes = [(True, ''listening'' @ [LF])], ending = Completes\<rparr>,
          globals_after = Original, wait_ended_by = Some AbortFired, host_exited = False\<rparr>"
proof -
  have a: "''server.js'' \<noteq> [] \<and> ''server.js'' \<notin> {''-e'', ''--eval'', ''-p'', ''--print''}
      \<and> load sample_runner ''/p'' ''server.js''
          = Some \<lparr>writes = [(True, ''listening'' @ [LF])], ending = Completes\<rparr>
      \<and> ending \<lparr>writes = [(True, ''listening'' @ [LF])], ending = Completes\<rparr> = Completes"
    by (simp add: sample_runner_def)
  note t = runFile_abort_returns_zero
      [where fname = "''server.js''" and h = sample_runner and cwd = "''/p''"
         and s = "\<lparr>writes = [(True, ''listening'' @ [LF])], ending = Completes\<rparr>"
         and argv = "[''--port'']" and sg = "\<lparr>aborted = False\<rparr>",
       THEN conjunct1, THEN mp, OF a]
  from a t show ?thesis by simp
qed

section \<open>Properties of the resolver\<close>

text \<open>
  Claim C6 is not met by the code. Two successive calls of \<open>resolve\<close> on a project that
  depends on \<open>a\<close>: the first call starts with an empty cache, asks the registry for \<open>a\<close> and
  leaves its packument in the cache; the second call finds the cache as the first left it,
  asks the registry for nothing and resolves \<open>a\<close> from the cached packument.
\<close>

theorem packument_cache_persists:
  "fetched (resolve sample_registry sample_project False True []) = [''a'']
   \<and> packumentCache (resolve sample_registry sample_project False True [])
       = [(''a'', sample_packument)]
   \<and> fetched (resolve sample_registry sample_project False True
                 (packumentCache (resolve sample_registry sample_project False True []))) = []
   \<and> map fst (resolved (resolve sample_registry sample_project False True
                 (packumentCache (resolve sample_registry sample_project False True [])))) = [''a'']
   \<and> packumentCache (resolve sample_registry sample_project False True
                 (packumentCache (resolve sample_registry sample_project False True [])))
       = [(''a'', sample_packument)]"
proof -
  have c: "packumentCache (resolve sample_registry sample_project False True [])
       = [(''a'', sample_packument)]"
    by code_simp
  have f: "fetched (resolve sample_registry sample_project False True []) = [''a'']"
    by code_simp
  have f2: "fetched (resolve sample_registry sample_project False True [(''a'', sample_packument)]) = []"
    by code_simp
  have r2: "map fst (resolved (resolve sample_registry sample_project False True
                                 [(''a'', sample_packument)])) = [''a'']"
    by code_simp
  have c2: "packumentCache (resolve sample_registry sample_project False True
                              [(''a'', sample_packument)]) = [(''a'', sample_packument)]"
    by code_simp
  show ?thesis by (simp only: c f f2 r2 c2)
qed

end
